theory Spec2Isabelle
  imports Main
begin

section \<open>Values of the Python runtime\<close>

text \<open>
  A Python \<open>str\<close> is a sequence of Unicode code points (lone surrogates included), a
  \<open>bytes\<close> object a sequence of numbers below 256. String literals of the source are
  written \<open>u ''...''\<close>.
\<close>

type_synonym pystr = "nat list"
type_synonym bytes = "nat list"

definition u :: "string \<Rightarrow> pystr" where
  "u s = map of_char s"

text \<open>
  A finite IEEE-754 double is \<open>m * 2 ^ e\<close> for integers \<open>m\<close> and \<open>e\<close>; \<open>Fin m e\<close> stands for
  that value (the sign of zero plays no part in this program).
\<close>

datatype pyfloat = Fin int int | PosInf | NegInf | NaN

text \<open>
  What \<open>json.loads\<close> returns: None, bool, int, float, str, list, dict. A dict is the list
  of its items, in order, each key once.
\<close>

datatype pyval =
    PNone
  | PBool bool
  | PInt int
  | PFloat pyfloat
  | PStr pystr
  | PList "pyval list"
  | PDict "(pystr \<times> pyval) list"

text \<open>
  Exceptions: the class decides which \<open>except\<close> clause catches, the text is \<open>str(e)\<close>.
  \<open>ValueError\<close> stands for \<open>ValueError\<close> and its subclasses (\<open>JSONDecodeError\<close>,
  \<open>UnicodeError\<close>, \<open>binascii.Error\<close>).
\<close>

datatype exn_class = ValueError | OverflowError | RuntimeError | AttributeError | TypeError | OtherError

datatype exn = Exn exn_class pystr

fun exn_cls :: "exn \<Rightarrow> exn_class" where
  "exn_cls (Exn c m) = c"

fun exn_str :: "exn \<Rightarrow> pystr" where
  "exn_str (Exn c m) = m"


section \<open>Float arithmetic used by the timestamp normalisation\<close>

text \<open>Number of binary digits of a natural number (\<open>int.bit_length\<close>).\<close>

fun bitlen :: "nat \<Rightarrow> nat" where
  "bitlen n = (if n = 0 then 0 else Suc (bitlen (n div 2)))"

declare bitlen.simps [simp del]

text \<open>
  The pairs that denote a double: at most 53 significant bits, an exponent of at least
  \<open>-1074\<close>, a magnitude below \<open>2 ^ 1024\<close>.
\<close>

definition valid_double :: "pyfloat \<Rightarrow> bool" where
  "valid_double f =
     (case f of
        Fin m e \<Rightarrow> bitlen (nat \<bar>m\<bar>) \<le> 53 \<and> - 1074 \<le> e \<and> int (bitlen (nat \<bar>m\<bar>)) + e \<le> 1024
      | _ \<Rightarrow> True)"

text \<open>
  \<open>round_double M e\<close> is the double nearest to the exact value \<open>M * 2 ^ e\<close> (ties to the
  even mantissa), for \<open>e \<ge> -1074\<close>: a magnitude of at most 53 bits is kept (\<open>k = 0\<close>); a
  longer one loses its \<open>k\<close> low bits; a rounded magnitude of \<open>2 ^ 1024\<close> or more is an
  infinity.
\<close>

definition round_double :: "int \<Rightarrow> int \<Rightarrow> pyfloat" where
  "round_double M e =
     (let a = nat \<bar>M\<bar>;
          k = bitlen a - 53;
          q = a div 2 ^ k;
          r = a mod 2 ^ k;
          q' = (if k = 0 then q
                else if 2 ^ (k - 1) < r \<or> (r = 2 ^ (k - 1) \<and> odd q) then q + 1
                else q);
          e' = e + int k
      in if 0 \<le> e' \<and> 2 ^ 1024 \<le> q' * 2 ^ nat e'
         then (if M < 0 then NegInf else PosInf)
         else Fin (if M < 0 then - int q' else int q') e')"

text \<open>\<open>float(n)\<close> for an int: OverflowError when the nearest double is not finite.\<close>

definition float_of_int :: "int \<Rightarrow> exn + pyfloat" where
  "float_of_int n =
     (case round_double n 0 of
        Fin m e \<Rightarrow> Inr (Fin m e)
      | _ \<Rightarrow> Inl (Exn OverflowError (u ''int too large to convert to float'')))"

text \<open>\<open>x * 1000\<close> for a float \<open>x\<close>: the int becomes \<open>1000.0\<close> and the product is rounded.\<close>

definition fmul_1000 :: "pyfloat \<Rightarrow> pyfloat" where
  "fmul_1000 x = (case x of Fin m e \<Rightarrow> round_double (1000 * m) e | y \<Rightarrow> y)"

text \<open>\<open>x >= n\<close> of a float and an int: Python compares the exact values.\<close>

definition float_ge_int :: "pyfloat \<Rightarrow> int \<Rightarrow> bool" where
  "float_ge_int x n =
     (case x of
        Fin m e \<Rightarrow> (if 0 \<le> e then n \<le> m * 2 ^ nat e else n * 2 ^ nat (- e) \<le> m)
      | PosInf \<Rightarrow> True
      | _ \<Rightarrow> False)"

text \<open>\<open>int(x)\<close> of a float: truncation toward zero; infinities and NaN raise.\<close>

definition int_of_float :: "pyfloat \<Rightarrow> exn + int" where
  "int_of_float x =
     (case x of
        Fin m e \<Rightarrow>
          Inr (if 0 \<le> e then m * 2 ^ nat e
               else if 0 \<le> m then m div 2 ^ nat (- e)
               else - ((- m) div 2 ^ nat (- e)))
      | NaN \<Rightarrow> Inl (Exn ValueError (u ''cannot convert float NaN to integer''))
      | _ \<Rightarrow> Inl (Exn OverflowError (u ''cannot convert float infinity to integer'')))"

definition isfinite :: "pyfloat \<Rightarrow> bool" where
  "isfinite x = (case x of Fin m e \<Rightarrow> True | _ \<Rightarrow> False)"


text \<open>\<open>x == n\<close> of a float and an int: the exact values are the same number.\<close>

definition float_eq_int :: "pyfloat \<Rightarrow> int \<Rightarrow> bool" where
  "float_eq_int x n =
     (case x of
        Fin m e \<Rightarrow> (if 0 \<le> e then m * 2 ^ nat e = n else m = n * 2 ^ nat (- e))
      | _ \<Rightarrow> False)"


section \<open>Timestamp normalisation\<close>

text \<open>
  \<open>_normalize_timestamp_to_ms\<close>. \<open>isinstance(ts, (int, float))\<close> holds for bool, int and
  float; a bool counts as the int 0 or 1. \<open>math.isfinite\<close> converts an int to a float
  first, which raises OverflowError for an int beyond the doubles.
\<close>

definition normalize_int :: "int \<Rightarrow> exn + int" where
  "normalize_int n =
     (case float_of_int n of
        Inl e \<Rightarrow> Inl e
      | Inr f \<Rightarrow> Inr (if 10 ^ 12 \<le> n then n else n * 1000))"

definition normalize_timestamp_to_ms :: "pyval \<Rightarrow> exn + int" where
  "normalize_timestamp_to_ms ts =
     (case ts of
        PBool b \<Rightarrow> normalize_int (if b then 1 else 0)
      | PInt n \<Rightarrow> normalize_int n
      | PFloat x \<Rightarrow>
          if \<not> isfinite x then Inl (Exn ValueError (u ''Missing or invalid timestamp''))
          else int_of_float (if float_ge_int x (10 ^ 12) then x else fmul_1000 x)
      | _ \<Rightarrow> Inl (Exn ValueError (u ''Missing or invalid timestamp'')))"


section \<open>Strings of the standard library\<close>

text \<open>\<open>str.isspace\<close> of one code point, and \<open>str.strip()\<close>, which removes them at both ends.\<close>

definition py_isspace :: "nat \<Rightarrow> bool" where
  "py_isspace c =
     ((9 \<le> c \<and> c \<le> 13) \<or> (28 \<le> c \<and> c \<le> 32) \<or> c = 133 \<or> c = 160 \<or> c = 5760 \<or>
      (8192 \<le> c \<and> c \<le> 8202) \<or> c = 8232 \<or> c = 8233 \<or> c = 8239 \<or> c = 8287 \<or> c = 12288)"

definition py_strip :: "pystr \<Rightarrow> pystr" where
  "py_strip s = rev (dropWhile py_isspace (rev (dropWhile py_isspace s)))"

text \<open>\<open>s[-8:]\<close>: the last eight code points, all of \<open>s\<close> when it is shorter.\<close>

definition last8 :: "pystr \<Rightarrow> pystr" where
  "last8 s = drop (length s - 8) s"

text \<open>Decimal digits of \<open>str(n)\<close> and of an f-string field.\<close>

fun digits10 :: "nat \<Rightarrow> pystr" where
  "digits10 n = (if n < 10 then [48 + n] else digits10 (n div 10) @ [48 + n mod 10])"

declare digits10.simps [simp del]

definition str_of_int :: "int \<Rightarrow> pystr" where
  "str_of_int i = (if i < 0 then 45 # digits10 (nat (- i)) else digits10 (nat i))"

text \<open>Lower-case hexadecimal digits, and \<open>hex(n)\<close>.\<close>

definition hexdigit :: "nat \<Rightarrow> nat" where
  "hexdigit d = (if d < 10 then 48 + d else 87 + d)"

fun digits16 :: "nat \<Rightarrow> pystr" where
  "digits16 n = (if n < 16 then [hexdigit n] else digits16 (n div 16) @ [hexdigit (n mod 16)])"

declare digits16.simps [simp del]

definition py_hex :: "int \<Rightarrow> pystr" where
  "py_hex i = (if i < 0 then u ''-0x'' @ digits16 (nat (- i)) else u ''0x'' @ digits16 (nat i))"

text \<open>
  \<open>str.encode("utf-8")\<close>: one to four bytes per code point; a surrogate (U+D800 to U+DFFF)
  has no encoding and raises UnicodeEncodeError, the \<open>None\<close> here. A str holds no code
  point above U+10FFFF.
\<close>

definition utf8_char :: "nat \<Rightarrow> bytes option" where
  "utf8_char c =
     (if c < 128 then Some [c]
      else if c < 2048 then Some [192 + c div 64, 128 + c mod 64]
      else if 55296 \<le> c \<and> c \<le> 57343 then None
      else if c < 65536 then Some [224 + c div 4096, 128 + c div 64 mod 64, 128 + c mod 64]
      else if c < 1114112 then
        Some [240 + c div 262144, 128 + c div 4096 mod 64, 128 + c div 64 mod 64, 128 + c mod 64]
      else None)"

fun utf8_encode :: "pystr \<Rightarrow> bytes option" where
  "utf8_encode [] = Some []"
| "utf8_encode (c # cs) =
     (case utf8_char c of
        None \<Rightarrow> None
      | Some bs \<Rightarrow> (case utf8_encode cs of None \<Rightarrow> None | Some rest \<Rightarrow> Some (bs @ rest)))"


section \<open>Responses\<close>

text \<open>
  The payloads the handler serialises are flat dicts of bools, strs and ints.
  \<open>json.dumps(payload, separators=(",", ":"))\<close> keeps the insertion order and, with the
  default \<open>ensure_ascii\<close>, escapes every code point outside \<open>' '..'~'\<close>.
\<close>

datatype jfield = JBool bool | JStr pystr | JInt int

definition hex4 :: "nat \<Rightarrow> pystr" where
  "hex4 n = [hexdigit (n div 4096 mod 16), hexdigit (n div 256 mod 16),
             hexdigit (n div 16 mod 16), hexdigit (n mod 16)]"

definition json_escape_char :: "nat \<Rightarrow> pystr" where
  "json_escape_char c =
     (if c = 34 then [92, 34]
      else if c = 92 then [92, 92]
      else if c = 8 then [92, 98]
      else if c = 12 then [92, 102]
      else if c = 10 then [92, 110]
      else if c = 13 then [92, 114]
      else if c = 9 then [92, 116]
      else if 32 \<le> c \<and> c \<le> 126 then [c]
      else if c < 65536 then [92, 117] @ hex4 c
      else [92, 117] @ hex4 (55296 + (c - 65536) div 1024 mod 1024) @
           [92, 117] @ hex4 (56320 + (c - 65536) mod 1024))"

definition json_string :: "pystr \<Rightarrow> pystr" where
  "json_string s = [34] @ concat (map json_escape_char s) @ [34]"

definition json_field :: "jfield \<Rightarrow> pystr" where
  "json_field v =
     (case v of
        JBool b \<Rightarrow> (if b then u ''true'' else u ''false'')
      | JStr s \<Rightarrow> json_string s
      | JInt i \<Rightarrow> str_of_int i)"

fun json_items :: "(pystr \<times> jfield) list \<Rightarrow> pystr" where
  "json_items [] = []"
| "json_items [(k, v)] = json_string k @ [58] @ json_field v"
| "json_items ((k, v) # kvs) = json_string k @ [58] @ json_field v @ [44] @ json_items kvs"

definition json_dumps_compact :: "(pystr \<times> jfield) list \<Rightarrow> pystr" where
  "json_dumps_compact kvs = [123] @ json_items kvs @ [125]"

record response =
  statusCode :: int
  headers :: "(pystr \<times> pystr) list"
  body :: pystr

definition json_response :: "int \<Rightarrow> (pystr \<times> jfield) list \<Rightarrow> response" where
  "json_response status payload =
     \<lparr>statusCode = status,
      headers = [(u ''Content-Type'', u ''application/json'')],
      body = json_dumps_compact payload\<rparr>"

definition bad_request :: "pystr \<Rightarrow> response" where
  "bad_request msg = json_response 400 [(u ''ok'', JBool False), (u ''error'', JStr msg)]"

definition server_error :: response where
  "server_error = json_response 500 [(u ''ok'', JBool False), (u ''error'', JStr (u ''Internal error''))]"


section \<open>The environment of an invocation\<close>

text \<open>
  What the handler takes from outside the repository: the functions of the standard
  library it calls whose results are not fixed here, the clock, and the storage SDK.
  \<^item> \<open>json_loads\<close>, \<open>json_dumps\<close>, \<open>b64decode\<close>, \<open>utf8_decode\<close>: \<open>json.loads\<close>,
    \<open>json.dumps\<close>, \<open>base64.b64decode\<close> and \<open>bytes.decode("utf-8")\<close>, an exception as \<open>Inl\<close>;
  \<^item> \<open>encode_error_text\<close>: the text of the UnicodeEncodeError of \<open>str.encode\<close>;
  \<^item> \<open>fromtimestamp_error\<close>: what \<open>datetime.fromtimestamp\<close> raises for an instant outside
    the years 1 to 9999 (ValueError, OverflowError or OSError, by magnitude and platform);
  \<^item> \<open>strftime_Y_small\<close>: \<open>strftime("%Y")\<close> for a year below 1000 (padded or not, by platform);
  \<^item> \<open>now_ms\<close>: \<open>int(datetime.now(tz=timezone.utc).timestamp() * 1000)\<close>;
  \<^item> \<open>boto3_available\<close>: whether \<open>import boto3\<close> succeeded; \<open>boto3_client\<close>: the exception
    of \<open>boto3.client("s3")\<close>, if any; \<open>put_object\<close>: the exception of the call, if any.
\<close>

record put_call =
  Bucket :: pystr
  Key :: pystr
  Body :: bytes
  ContentType :: pystr

record platform =
  json_loads :: "pystr \<Rightarrow> exn + pyval"
  json_dumps :: "pyval \<Rightarrow> exn + pystr"
  b64decode :: "pystr \<Rightarrow> exn + bytes"
  utf8_decode :: "bytes \<Rightarrow> exn + pystr"
  encode_error_text :: "pystr \<Rightarrow> pystr"
  fromtimestamp_error :: "int \<Rightarrow> exn"
  strftime_Y_small :: "int \<Rightarrow> pystr"
  now_ms :: int
  boto3_available :: bool
  boto3_client :: "exn option"
  put_object :: "put_call \<Rightarrow> exn option"

text \<open>
  The module globals read from the process environment (a map from names to values).
  \<open>DRY_RUN\<close> is membership of the variable's text in a fixed set of five strings.
  \<open>LOG_LEVEL\<close> only selects which log lines are printed and is left out with them.
\<close>

record config =
  RAW_BUCKET_NAME :: pystr
  DRY_RUN :: bool

definition getenv :: "(pystr \<rightharpoonup> pystr) \<Rightarrow> pystr \<Rightarrow> pystr \<Rightarrow> pystr" where
  "getenv environ name dflt = (case environ name of None \<Rightarrow> dflt | Some v \<Rightarrow> v)"

definition dry_run_of :: "pystr \<Rightarrow> bool" where
  "dry_run_of v = (v \<in> set [u ''1'', u ''true'', u ''TRUE'', u ''yes'', u ''YES''])"

definition load_config :: "(pystr \<rightharpoonup> pystr) \<Rightarrow> config" where
  "load_config environ =
     \<lparr>RAW_BUCKET_NAME = getenv environ (u ''RAW_BUCKET_NAME'') (u ''zoolanding-data-raw''),
      DRY_RUN = dry_run_of (getenv environ (u ''DRY_RUN'') (u ''0''))\<rparr>"

text \<open>
  The state that outlives an invocation: the global \<open>S3\<close> (whether a client is cached)
  and the calls of \<open>put_object\<close> made so far, in order.
\<close>

record world =
  S3 :: bool
  puts :: "put_call list"

text \<open>
  The event: \<open>event.get("body")\<close> is None, a str, a bytes object or anything else (a
  pre-parsed structure); \<open>isBase64Encoded\<close> is read for its truth value.
\<close>

datatype body_val = BodyNone | BodyStr pystr | BodyBytes bytes | BodyOther pyval

record event =
  ev_body :: body_val
  isBase64Encoded :: bool


section \<open>The steps of the handler\<close>

text \<open>
  \<open>_get_request_id\<close>: the argument is \<open>getattr(context, "aws_request_id", None)\<close>.
\<close>

definition get_request_id :: "platform \<Rightarrow> pyval \<Rightarrow> pystr" where
  "get_request_id plat reqId =
     (case reqId of
        PStr s \<Rightarrow> if 8 \<le> length s then last8 s else last8 (py_hex (now_ms plat))
      | _ \<Rightarrow> last8 (py_hex (now_ms plat)))"

text \<open>\<open>_decode_body\<close>.\<close>

definition decode_body :: "platform \<Rightarrow> event \<Rightarrow> exn + pystr" where
  "decode_body plat ev =
     (case ev_body ev of
        BodyNone \<Rightarrow> Inl (Exn ValueError (u ''Missing body''))
      | BodyStr s \<Rightarrow>
          if s = [] then Inl (Exn ValueError (u ''Missing body''))
          else if isBase64Encoded ev then
            (case b64decode plat s of Inl e \<Rightarrow> Inl e | Inr bs \<Rightarrow> utf8_decode plat bs)
          else Inr s
      | BodyBytes bs \<Rightarrow>
          if isBase64Encoded ev then Inl (Exn ValueError (u ''Body is base64Encoded but not a string''))
          else utf8_decode plat bs
      | BodyOther v \<Rightarrow>
          if isBase64Encoded ev then Inl (Exn ValueError (u ''Body is base64Encoded but not a string''))
          else json_dumps plat v)"

text \<open>
  \<open>payload.get(key)\<close>: only a dict has the method; on any other value the attribute
  lookup raises AttributeError. A missing key gives None.
\<close>

definition type_name :: "pyval \<Rightarrow> pystr" where
  "type_name v =
     (case v of
        PNone \<Rightarrow> u ''NoneType'' | PBool b \<Rightarrow> u ''bool'' | PInt n \<Rightarrow> u ''int''
      | PFloat x \<Rightarrow> u ''float'' | PStr s \<Rightarrow> u ''str'' | PList xs \<Rightarrow> u ''list''
      | PDict kvs \<Rightarrow> u ''dict'')"

definition payload_get :: "pyval \<Rightarrow> pystr \<Rightarrow> exn + pyval" where
  "payload_get payload k =
     (case payload of
        PDict kvs \<Rightarrow> Inr (case map_of kvs k of None \<Rightarrow> PNone | Some v \<Rightarrow> v)
      | _ \<Rightarrow> Inl (Exn AttributeError
                 ([39] @ type_name payload @ [39] @ u '' object has no attribute '' @ [39] @ u ''get'' @ [39])))"

text \<open>
  The proleptic Gregorian date of the day \<open>z\<close> days after 1970-01-01, as \<open>datetime\<close>
  computes it.
\<close>

definition civil_from_days :: "int \<Rightarrow> int \<times> int \<times> int" where
  "civil_from_days z0 =
     (let z = z0 + 719468;
          era = z div 146097;
          doe = z - era * 146097;
          yoe = (doe - doe div 1460 + doe div 36524 - doe div 146096) div 365;
          y = yoe + era * 400;
          doy = doe - (365 * yoe + yoe div 4 - yoe div 100);
          mp = (5 * doy + 2) div 153;
          d = doy - (153 * mp + 2) div 5 + 1;
          m = (if mp < 10 then mp + 3 else mp - 9)
      in (if m \<le> 2 then y + 1 else y, m, d))"

definition pad2 :: "int \<Rightarrow> pystr" where
  "pad2 n = (if n < 10 then 48 # str_of_int n else str_of_int n)"

definition fmt_year :: "platform \<Rightarrow> int \<Rightarrow> pystr" where
  "fmt_year plat y = (if 1000 \<le> y then str_of_int y else strftime_Y_small plat y)"

text \<open>
  \<open>_derive_date_parts\<close>. \<open>datetime.fromtimestamp(ts_ms / 1000.0, tz=timezone.utc)\<close> is
  defined from 0001-01-01T00:00:00 to 9999-12-31T23:59:59.999; there the quotient is a
  double within \<open>2 ^ -15\<close> seconds of the exact one, the instant is a whole number of
  milliseconds, and so the date is that of day \<open>ts_ms div 86400000\<close>.
\<close>

definition derive_date_parts :: "platform \<Rightarrow> int \<Rightarrow> exn + (pystr \<times> pystr \<times> pystr)" where
  "derive_date_parts plat ts_ms =
     (if - 62135596800000 \<le> ts_ms \<and> ts_ms \<le> 253402300799999 then
        (case civil_from_days (ts_ms div 86400000) of
           (y, m, d) \<Rightarrow> Inr (fmt_year plat y, pad2 m, pad2 d))
      else Inl (fromtimestamp_error plat ts_ms))"

text \<open>
  \<open>_get_s3_client\<close>: the cached client; None (here \<open>False\<close>) in dry-run mode; else a new
  client, kept in \<open>S3\<close>.
\<close>

definition get_s3_client :: "platform \<Rightarrow> config \<Rightarrow> world \<Rightarrow> exn + (bool \<times> world)" where
  "get_s3_client plat cfg w =
     (if S3 w then Inr (True, w)
      else if DRY_RUN cfg then Inr (False, w)
      else if \<not> boto3_available plat then
        Inl (Exn RuntimeError (u ''boto3 is not available and DRY_RUN is disabled; cannot upload to S3''))
      else (case boto3_client plat of
              Some e \<Rightarrow> Inl e
            | None \<Rightarrow> Inr (True, w\<lparr>S3 := True\<rparr>)))"

text \<open>
  The two outer \<open>except\<close> clauses of \<open>lambda_handler\<close>: a ValueError is answered with its
  text, any other exception with the generic server error.
\<close>

definition on_exception :: "exn \<Rightarrow> response" where
  "on_exception e = (if exn_cls e = ValueError then bad_request (exn_str e) else server_error)"

definition build_key :: "pystr \<Rightarrow> pystr \<Rightarrow> pystr \<Rightarrow> pystr \<Rightarrow> int \<Rightarrow> pystr \<Rightarrow> pystr" where
  "build_key app_name yyyy mm dd ts_ms short_reqId =
     app_name @ u ''/'' @ yyyy @ u ''/'' @ mm @ u ''/'' @ dd @ u ''/'' @
     str_of_int ts_ms @ u ''-'' @ short_reqId @ u ''.json''"

definition success_body :: "config \<Rightarrow> pystr \<Rightarrow> nat \<Rightarrow> (pystr \<times> jfield) list" where
  "success_body cfg key size_bytes =
     [(u ''ok'', JBool True), (u ''bucket'', JStr (RAW_BUCKET_NAME cfg)),
      (u ''key'', JStr key), (u ''size'', JInt (int size_bytes))] @
     (if DRY_RUN cfg then [(u ''dryRun'', JBool True)] else [])"

text \<open>
  Steps 6 and 7 of \<open>lambda_handler\<close>: the upload of the body's bytes (skipped in dry-run
  mode) and the success response. Every exception of the upload is caught on the spot.
\<close>

definition upload_and_respond ::
  "platform \<Rightarrow> config \<Rightarrow> world \<Rightarrow> pystr \<Rightarrow> bytes \<Rightarrow> response \<times> world" where
  "upload_and_respond plat cfg w key body_bytes =
     (if DRY_RUN cfg then (json_response 200 (success_body cfg key (length body_bytes)), w)
      else
        (case get_s3_client plat cfg w of
           Inl e \<Rightarrow> (server_error, w)
         | Inr (client, w1) \<Rightarrow>
             if \<not> client then (server_error, w1)
             else
               let call = \<lparr>Bucket = RAW_BUCKET_NAME cfg, Key = key, Body = body_bytes,
                           ContentType = u ''application/json''\<rparr>;
                   w2 = w1\<lparr>puts := puts w1 @ [call]\<rparr>
               in (case put_object plat call of
                     Some e \<Rightarrow> (server_error, w2)
                   | None \<Rightarrow> (json_response 200 (success_body cfg key (length body_bytes)), w2))))"

text \<open>
  Steps 1 to 5 of \<open>lambda_handler\<close> and the encoding of the body (line 163), without the
  log lines (\<open>_log\<close> prints and never raises). A step ends the invocation with a \<open>return\<close>,
  raises an exception that reaches the outer \<open>except\<close> clauses, or goes on. The JSON step
  returns on every exception; the timestamp step returns on a ValueError and lets any
  other exception through. The last argument is \<open>getattr(context, "aws_request_id", None)\<close>.
\<close>

datatype 'a step = Return response | Raise exn | Continue 'a

definition prepare :: "platform \<Rightarrow> event \<Rightarrow> pyval \<Rightarrow> (pystr \<times> bytes) step" where
  "prepare plat ev reqId =
     (let short_reqId = get_request_id plat reqId in
      case decode_body plat ev of
        Inl e \<Rightarrow> Raise e
      | Inr body_str \<Rightarrow>
     (case json_loads plat body_str of
        Inl e \<Rightarrow> Return (bad_request (u ''Body is not valid JSON''))
      | Inr payload \<Rightarrow>
     (case payload_get payload (u ''appName'') of
        Inl e \<Rightarrow> Raise e
      | Inr (PStr app_name) \<Rightarrow>
          if py_strip app_name = [] then Return (bad_request (u ''Missing or invalid appName''))
          else
     (case payload_get payload (u ''timestamp'') of
        Inl e \<Rightarrow> Raise e
      | Inr ts \<Rightarrow>
     (case normalize_timestamp_to_ms ts of
        Inl e \<Rightarrow> if exn_cls e = ValueError then Return (bad_request (exn_str e)) else Raise e
      | Inr ts_ms \<Rightarrow>
     (case derive_date_parts plat ts_ms of
        Inl e \<Rightarrow> Raise e
      | Inr (yyyy, mm, dd) \<Rightarrow>
     (case utf8_encode body_str of
        None \<Rightarrow> Raise (Exn ValueError (encode_error_text plat body_str))
      | Some body_bytes \<Rightarrow>
          Continue (build_key app_name yyyy mm dd ts_ms short_reqId, body_bytes)))))
      | Inr _ \<Rightarrow> Return (bad_request (u ''Missing or invalid appName'')))))"

text \<open>\<open>lambda_handler\<close>: the response and the state left behind.\<close>

definition lambda_handler ::
  "platform \<Rightarrow> config \<Rightarrow> world \<Rightarrow> event \<Rightarrow> pyval \<Rightarrow> response \<times> world" where
  "lambda_handler plat cfg w ev reqId =
     (case prepare plat ev reqId of
        Return r \<Rightarrow> (r, w)
      | Raise e \<Rightarrow> (on_exception e, w)
      | Continue (key, body_bytes) \<Rightarrow> upload_and_respond plat cfg w key body_bytes)"


section \<open>Concrete environments and requests\<close>

text \<open>
  For concrete runs: a parser given as a table from body texts to results, the clock
  stopped at 1700000000000 ms, an SDK that is installed and builds its client, and a
  \<open>put_object\<close> with a fixed outcome.
\<close>

definition table_platform :: "(pystr \<times> (exn + pyval)) list \<Rightarrow> exn option \<Rightarrow> platform" where
  "table_platform table put_outcome =
     \<lparr>json_loads = (\<lambda>s. case map_of table s of
                           Some r \<Rightarrow> r
                         | None \<Rightarrow> Inl (Exn ValueError (u ''Expecting value: line 1 column 1 (char 0)''))),
      json_dumps = (\<lambda>v. Inl (Exn TypeError (u ''Object is not JSON serializable''))),
      b64decode = (\<lambda>s. Inl (Exn ValueError (u ''Incorrect padding''))),
      utf8_decode = (\<lambda>bs. Inl (Exn ValueError (u ''invalid start byte''))),
      encode_error_text = (\<lambda>s. u ''surrogates not allowed''),
      fromtimestamp_error = (\<lambda>t. Exn ValueError (u ''year is out of range'')),
      strftime_Y_small = str_of_int,
      now_ms = 1700000000000,
      boto3_available = True,
      boto3_client = None,
      put_object = (\<lambda>c. put_outcome)\<rparr>"

definition str_event :: "pystr \<Rightarrow> event" where
  "str_event s = \<lparr>ev_body = BodyStr s, isBase64Encoded = False\<rparr>"

definition live_config :: config where
  "live_config = load_config Map.empty"

definition dry_config :: config where
  "dry_config = load_config [u ''DRY_RUN'' \<mapsto> u ''1'']"

definition fresh_world :: world where
  "fresh_world = \<lparr>S3 = False, puts = []\<rparr>"


text \<open>The request of the worked example, its parse, and the environment that parses it.\<close>

definition demo_body :: pystr where
  \<open>demo_body = u ''{"appName":"demo","timestamp":1700000000}''\<close>

definition demo_payload :: pyval where
  "demo_payload = PDict [(u ''appName'', PStr (u ''demo'')), (u ''timestamp'', PInt 1700000000)]"

definition demo_platform :: "exn option \<Rightarrow> platform" where
  "demo_platform put_outcome = table_platform [(demo_body, Inr demo_payload)] put_outcome"

definition demo_key :: pystr where
  "demo_key = u ''demo/2023/11/14/1700000000000-ABCD1234.json''"

definition demo_reqId :: pyval where
  "demo_reqId = PStr (u ''req-0000ABCD1234'')"


text \<open>
  The same request with one more field, whose text holds the lone surrogate U+D800 (a
  str that \<open>json.loads\<close> accepts and \<open>str.encode\<close> refuses).
\<close>

definition surrogate_body :: pystr where
  \<open>surrogate_body = u ''{"appName":"demo","timestamp":1700000000,"x":"'' @ [55296] @ u ''"}''\<close>

definition surrogate_platform :: platform where
  "surrogate_platform =
     table_platform
       [(surrogate_body,
         Inr (PDict [(u ''appName'', PStr (u ''demo'')), (u ''timestamp'', PInt 1700000000),
                     (u ''x'', PStr [55296])]))]
       None"



text \<open>
  The upload step raises nothing: dry-run mode, or a client at hand (cached, or built
  without an exception) and a \<open>put_object\<close> that returns.
\<close>

definition upload_succeeds :: "platform \<Rightarrow> config \<Rightarrow> world \<Rightarrow> pystr \<Rightarrow> bytes \<Rightarrow> bool" where
  "upload_succeeds plat cfg w key bs =
     (DRY_RUN cfg \<or>
      ((S3 w \<or> (boto3_available plat \<and> boto3_client plat = None)) \<and>
       put_object plat \<lparr>Bucket = RAW_BUCKET_NAME cfg, Key = key, Body = bs,
                        ContentType = u ''application/json''\<rparr> = None))"


text \<open>
  A body that is no JSON, with the error text of \<open>json.loads\<close> for it, and a body that is
  a JSON array.
\<close>

definition broken_body :: pystr where
  "broken_body = u ''{not valid''"

definition broken_text :: pystr where
  "broken_text = u ''Expecting property name enclosed in double quotes: line 1 column 2 (char 1)''"

definition broken_platform :: platform where
  "broken_platform = table_platform [(broken_body, Inl (Exn ValueError broken_text))] None"

definition array_platform :: platform where
  "array_platform = table_platform [(u ''[]'', Inr (PList []))] None"

text \<open>
  A request whose timestamp is the integer \<open>10 ^ 309\<close> (a 1 and 309 zeros in the body),
  and one whose body is an object without \<open>appName\<close>.
\<close>

definition huge_body :: pystr where
  \<open>huge_body = u ''{"appName":"demo","timestamp":1'' @ replicate 309 48 @ u ''}''\<close>

definition huge_timestamp :: int where
  "huge_timestamp = 10 ^ 309"

definition huge_platform :: platform where
  "huge_platform =
     table_platform
       [(huge_body, Inr (PDict [(u ''appName'', PStr (u ''demo'')), (u ''timestamp'', PInt huge_timestamp)]))]
       None"

definition nameless_platform :: platform where
  "nameless_platform =
     table_platform [(u ''{}'', Inr (PDict []))] (Some (Exn OtherError (u ''unreachable'')))"

text \<open>\<open>needle in hay\<close> of two strs: \<open>needle\<close> occurs in \<open>hay\<close> as a contiguous part.\<close>

fun starts_with :: "pystr \<Rightarrow> pystr \<Rightarrow> bool" where
  "starts_with hay [] = True"
| "starts_with [] (c # cs) = False"
| "starts_with (h # hs) (c # cs) = (h = c \<and> starts_with hs cs)"

fun contains :: "pystr \<Rightarrow> pystr \<Rightarrow> bool" where
  "contains [] needle = (needle = [])"
| "contains (h # hs) needle = (starts_with (h # hs) needle \<or> contains hs needle)"

text \<open>
  The reading of \<open>DRY_RUN\<close> in the specification: true-like when the text, made lower
  case, is \<open>1\<close>, \<open>true\<close> or \<open>yes\<close>.
\<close>

definition ascii_lower :: "nat \<Rightarrow> nat" where
  "ascii_lower c = (if 65 \<le> c \<and> c \<le> 90 then c + 32 else c)"

definition spec_true_like :: "pystr \<Rightarrow> bool" where
  "spec_true_like v = (map ascii_lower v \<in> set [u ''1'', u ''true'', u ''yes''])"


section \<open>Evaluation on literals\<close>

lemma bitlen_0 [simp]: "bitlen 0 = 0"
  by (simp add: bitlen.simps)

lemma bitlen_1 [simp]: "bitlen 1 = 1"
  by (simp add: bitlen.simps)

lemma bitlen_Suc_0 [simp]: "bitlen (Suc 0) = 1"
  by (simp add: bitlen.simps)

lemma bitlen_Bit0 [simp]: "bitlen (numeral (Num.Bit0 n)) = Suc (bitlen (numeral n))"
  by (subst bitlen.simps) simp

lemma bitlen_Bit1 [simp]: "bitlen (numeral (Num.Bit1 n)) = Suc (bitlen (numeral n))"
  by (subst bitlen.simps) simp

lemma digits10_0 [simp]: "digits10 0 = [48]"
  by (simp add: digits10.simps)

lemma digits10_1 [simp]: "digits10 1 = [49]"
  by (simp add: digits10.simps)

lemma digits10_Suc_0 [simp]: "digits10 (Suc 0) = [49]"
  by (simp add: digits10.simps)

lemma digits10_numeral [simp]:
  "digits10 (numeral k) =
     (if (numeral k :: nat) < 10 then [48 + numeral k]
      else digits10 (numeral k div 10) @ [48 + numeral k mod 10])"
  by (subst digits10.simps) simp

lemma digits16_0 [simp]: "digits16 0 = [48]"
  by (simp add: digits16.simps hexdigit_def)

lemma digits16_1 [simp]: "digits16 1 = [49]"
  by (simp add: digits16.simps hexdigit_def)

lemma digits16_Suc_0 [simp]: "digits16 (Suc 0) = [49]"
  by (simp add: digits16.simps hexdigit_def)

lemma digits16_numeral [simp]:
  "digits16 (numeral k) =
     (if (numeral k :: nat) < 16 then [hexdigit (numeral k)]
      else digits16 (numeral k div 16) @ [hexdigit (numeral k mod 16)])"
  by (subst digits16.simps) simp

lemma civil_from_days_19675: "civil_from_days 19675 = (2023, 11, 14)"
  by code_simp


lemma derive_date_parts_demo:
  "derive_date_parts plat 1700000000000 = Inr (u ''2023'', u ''11'', u ''14'')"
  by (simp add: derive_date_parts_def civil_from_days_19675 fmt_year_def pad2_def str_of_int_def u_def)




section \<open>Facts about the steps\<close>

lemma statusCode_json_response [simp]: "statusCode (json_response s p) = s"
  by (simp add: json_response_def)

lemma statusCode_bad_request [simp]: "statusCode (bad_request m) = 400"
  by (simp add: bad_request_def)

lemma statusCode_server_error [simp]: "statusCode server_error = 500"
  by (simp add: server_error_def)

lemma statusCode_on_exception:
  "statusCode (on_exception e) = (if exn_cls e = ValueError then 400 else 500)"
  by (simp add: on_exception_def)

lemma last8_append: "length x = 8 \<Longrightarrow> last8 (pre @ x) = x"
  by (simp add: last8_def)

text \<open>A request that passes every check reaches the upload with its key and its bytes.\<close>

lemma prepare_valid:
  assumes "decode_body plat ev = Inr body_str"
    and "json_loads plat body_str = Inr (PDict kvs)"
    and "map_of kvs (u ''appName'') = Some (PStr name)"
    and "py_strip name \<noteq> []"
    and "normalize_timestamp_to_ms (case map_of kvs (u ''timestamp'') of None \<Rightarrow> PNone | Some v \<Rightarrow> v)
           = Inr ts_ms"
    and "derive_date_parts plat ts_ms = Inr (yyyy, mm, dd)"
    and "utf8_encode body_str = Some bs"
  shows "prepare plat ev reqId =
           Continue (build_key name yyyy mm dd ts_ms (get_request_id plat reqId), bs)"
  using assms by (simp add: prepare_def payload_get_def)

text \<open>The bytes that reach the upload are the encoding of the decoded body.\<close>

lemma prepare_Continue_body:
  assumes "prepare plat ev reqId = Continue (key, bs)"
  shows "\<exists>body_str. decode_body plat ev = Inr body_str \<and> utf8_encode body_str = Some bs"
  using assms
  by (auto simp: prepare_def Let_def
           split: sum.splits pyval.splits if_splits option.splits prod.splits)

lemma upload_dry_run:
  "DRY_RUN cfg \<Longrightarrow>
   upload_and_respond plat cfg w key bs = (json_response 200 (success_body cfg key (length bs)), w)"
  by (simp add: upload_and_respond_def)

lemma upload_cases:
  assumes "upload_and_respond plat cfg w key bs = (r, w')"
  shows "(r = json_response 200 (success_body cfg key (length bs)) \<or> r = server_error) \<and>
         (puts w' = puts w \<or>
          puts w' = puts w @ [\<lparr>Bucket = RAW_BUCKET_NAME cfg, Key = key, Body = bs,
                                ContentType = u ''application/json''\<rparr>])"
  using assms
  by (auto simp: upload_and_respond_def get_s3_client_def Let_def
           split: if_splits sum.splits option.splits prod.splits)

lemma upload_live_ok:
  assumes "\<not> DRY_RUN cfg"
    and "S3 w \<or> (boto3_available plat \<and> boto3_client plat = None)"
    and "put_object plat \<lparr>Bucket = RAW_BUCKET_NAME cfg, Key = key, Body = bs,
                           ContentType = u ''application/json''\<rparr> = None"
  shows "fst (upload_and_respond plat cfg w key bs) =
           json_response 200 (success_body cfg key (length bs))"
  using assms by (auto simp: upload_and_respond_def get_s3_client_def Let_def)

lemma upload_live_fail:
  assumes "\<not> DRY_RUN cfg"
    and "(\<exists>e. get_s3_client plat cfg w = Inl e) \<or>
         (\<exists>e. put_object plat \<lparr>Bucket = RAW_BUCKET_NAME cfg, Key = key, Body = bs,
                                ContentType = u ''application/json''\<rparr> = Some e)"
  shows "fst (upload_and_respond plat cfg w key bs) = server_error"
  using assms
  by (auto simp: upload_and_respond_def get_s3_client_def Let_def
           split: if_splits sum.splits option.splits prod.splits)

text \<open>No early return of the validation carries the status 500.\<close>

lemma prepare_Return_not_500: "prepare plat ev reqId = Return r \<Longrightarrow> statusCode r \<noteq> 500"
  by (auto simp: prepare_def Let_def
           split: sum.splits pyval.splits if_splits option.splits prod.splits)

lemma handler_status_500:
  assumes "lambda_handler plat cfg w ev reqId = (r, w')" and "statusCode r = 500"
  shows "r = server_error"
proof (cases "prepare plat ev reqId")
  case (Return r0)
  then have "r = r0" using assms(1) by (simp add: lambda_handler_def)
  with prepare_Return_not_500[OF Return] assms(2) show ?thesis by simp
next
  case (Raise e)
  then show ?thesis
    using assms by (auto simp: lambda_handler_def on_exception_def split: if_splits)
next
  case (Continue kb)
  obtain key bs where "kb = (key, bs)" by (cases kb)
  with Continue assms(1) have "upload_and_respond plat cfg w key bs = (r, w')"
    by (simp add: lambda_handler_def)
  from upload_cases[OF this] assms(2) show ?thesis by auto
qed

lemma server_error_text:
  \<open>server_error =
     \<lparr>statusCode = 500, headers = [(u ''Content-Type'', u ''application/json'')],
      body = u ''{"ok":false,"error":"Internal error"}''\<rparr>\<close>
  by (simp add: server_error_def json_response_def json_dumps_compact_def json_string_def
        json_field_def json_escape_char_def u_def)


section \<open>The worked example, step by step\<close>

lemma float_of_int_demo: "float_of_int 1700000000 = Inr (Fin 1700000000 0)"
  by (simp add: float_of_int_def round_double_def Let_def)

lemma normalize_demo: "normalize_timestamp_to_ms (PInt 1700000000) = Inr 1700000000000"
  by (simp add: normalize_timestamp_to_ms_def normalize_int_def float_of_int_demo)

lemma utf8_encode_demo_body: "utf8_encode demo_body = Some demo_body"
  by (simp add: demo_body_def u_def utf8_char_def)

lemma length_demo_body: "length demo_body = 41"
  by (simp add: demo_body_def u_def)

lemma demo_body_nonempty: "demo_body \<noteq> []"
  by (simp add: demo_body_def u_def)

lemma py_strip_demo: "py_strip (u ''demo'') \<noteq> []"
  by (simp add: py_strip_def py_isspace_def u_def)

lemma build_key_demo:
  "build_key (u ''demo'') (u ''2023'') (u ''11'') (u ''14'') 1700000000000 (u ''ABCD1234'') = demo_key"
  by (simp add: build_key_def demo_key_def str_of_int_def u_def)

lemma get_request_id_demo: "get_request_id plat demo_reqId = u ''ABCD1234''"
  by (simp add: get_request_id_def demo_reqId_def last8_def u_def)

lemma decode_demo: "decode_body plat (str_event demo_body) = Inr demo_body"
  by (simp add: decode_body_def str_event_def demo_body_nonempty)

lemma loads_demo: "json_loads (demo_platform out) demo_body = Inr demo_payload"
  by (simp add: demo_platform_def table_platform_def)

lemma demo_prepare:
  "prepare (demo_platform out) (str_event demo_body) demo_reqId = Continue (demo_key, demo_body)"
proof -
  let ?kvs = "[(u ''appName'', PStr (u ''demo'')), (u ''timestamp'', PInt 1700000000)]"
  have "prepare (demo_platform out) (str_event demo_body) demo_reqId
     = Continue (build_key (u ''demo'') (u ''2023'') (u ''11'') (u ''14'') 1700000000000
                  (get_request_id (demo_platform out) demo_reqId), demo_body)"
  proof (rule prepare_valid)
    show "decode_body (demo_platform out) (str_event demo_body) = Inr demo_body"
      by (rule decode_demo)
    show "json_loads (demo_platform out) demo_body = Inr (PDict ?kvs)"
      by (simp add: loads_demo demo_payload_def)
    show "map_of ?kvs (u ''appName'') = Some (PStr (u ''demo''))"
      by simp
    show "py_strip (u ''demo'') \<noteq> []"
      by (rule py_strip_demo)
    show "normalize_timestamp_to_ms
            (case map_of ?kvs (u ''timestamp'') of None \<Rightarrow> PNone | Some v \<Rightarrow> v) = Inr 1700000000000"
      by (simp add: normalize_demo u_def)
    show "derive_date_parts (demo_platform out) 1700000000000 = Inr (u ''2023'', u ''11'', u ''14'')"
      by (rule derive_date_parts_demo)
    show "utf8_encode demo_body = Some demo_body"
      by (rule utf8_encode_demo_body)
  qed
  then show ?thesis by (simp add: build_key_demo get_request_id_demo)
qed

lemma live_config_eval:
  "RAW_BUCKET_NAME live_config = u ''zoolanding-data-raw''" "\<not> DRY_RUN live_config"
  by (simp_all add: live_config_def load_config_def getenv_def dry_run_of_def u_def)

lemma dry_config_eval:
  "RAW_BUCKET_NAME dry_config = u ''zoolanding-data-raw''" "DRY_RUN dry_config"
  by (simp_all add: dry_config_def load_config_def getenv_def dry_run_of_def u_def)

lemma demo_valid:
  "decode_body (demo_platform out) (str_event demo_body) = Inr demo_body \<and>
   json_loads (demo_platform out) demo_body =
     Inr (PDict [(u ''appName'', PStr (u ''demo'')), (u ''timestamp'', PInt 1700000000)]) \<and>
   map_of [(u ''appName'', PStr (u ''demo'')), (u ''timestamp'', PInt 1700000000)] (u ''appName'')
     = Some (PStr (u ''demo'')) \<and>
   py_strip (u ''demo'') \<noteq> [] \<and>
   normalize_timestamp_to_ms
     (case map_of [(u ''appName'', PStr (u ''demo'')), (u ''timestamp'', PInt 1700000000)] (u ''timestamp'')
      of None \<Rightarrow> PNone | Some v \<Rightarrow> v) = Inr 1700000000000 \<and>
   derive_date_parts (demo_platform out) 1700000000000 = Inr (u ''2023'', u ''11'', u ''14'') \<and>
   utf8_encode demo_body = Some demo_body"
proof -
  have "normalize_timestamp_to_ms
     (case map_of [(u ''appName'', PStr (u ''demo'')), (u ''timestamp'', PInt 1700000000)] (u ''timestamp'')
      of None \<Rightarrow> PNone | Some v \<Rightarrow> v) = Inr 1700000000000"
    by (simp add: normalize_demo u_def)
  then show ?thesis
    using decode_demo loads_demo py_strip_demo derive_date_parts_demo utf8_encode_demo_body
    by (simp add: demo_payload_def)
qed


section \<open>Further facts used by the claims\<close>

lemma prepare_Return_400: "prepare plat ev reqId = Return r \<Longrightarrow> statusCode r = 400"
  by (auto simp: prepare_def Let_def
           split: sum.splits pyval.splits if_splits option.splits prod.splits)

lemma demo_live_run:
  "lambda_handler (demo_platform None) live_config fresh_world (str_event demo_body) demo_reqId
     = (json_response 200 (success_body live_config demo_key 41),
        \<lparr>S3 = True,
         puts = [\<lparr>Bucket = u ''zoolanding-data-raw'', Key = demo_key, Body = demo_body,
                  ContentType = u ''application/json''\<rparr>]\<rparr>)"
  unfolding lambda_handler_def demo_prepare
  by (simp add: upload_and_respond_def get_s3_client_def live_config_eval fresh_world_def
        demo_platform_def table_platform_def length_demo_body Let_def)

lemma upload_succeeds_response:
  "upload_succeeds plat cfg w key bs \<Longrightarrow>
   fst (upload_and_respond plat cfg w key bs) = json_response 200 (success_body cfg key (length bs))"
  by (cases "DRY_RUN cfg") (auto simp: upload_succeeds_def upload_dry_run intro: upload_live_ok)

lemma get_request_id_suffix:
  "length x = 8 \<Longrightarrow> get_request_id plat (PStr (pre @ x)) = x"
  by (simp add: get_request_id_def last8_append)

lemma length_ABCD1234: "length (u ''ABCD1234'') = 8"
  by (simp add: u_def)

lemma build_key_demo_text:
  "build_key (u ''demo'') (u ''2023'') (u ''11'') (u ''14'') 1700000000000 (u ''ABCD1234'')
     = u ''demo/2023/11/14/1700000000000-ABCD1234.json''"
  using build_key_demo by (simp add: demo_key_def)

lemma demo_reqId_suffix: "demo_reqId = PStr (u ''req-0000'' @ u ''ABCD1234'')"
  by (simp add: demo_reqId_def u_def)

lemma demo_upload_succeeds: "upload_succeeds (demo_platform None) live_config fresh_world key bs"
  by (simp add: upload_succeeds_def demo_platform_def table_platform_def)







lemma bad_request_text:
  \<open>bad_request (u ''Body is not valid JSON'') =
     \<lparr>statusCode = 400, headers = [(u ''Content-Type'', u ''application/json'')],
      body = u ''{"ok":false,"error":"Body is not valid JSON"}''\<rparr>\<close>
  by (simp add: bad_request_def json_response_def json_dumps_compact_def json_string_def
        json_field_def json_escape_char_def u_def)

lemma broken_body_nonempty: "broken_body \<noteq> []"
  by (simp add: broken_body_def u_def)

lemma broken_run:
  "lambda_handler broken_platform cfg w (str_event broken_body) reqId
     = (bad_request (u ''Body is not valid JSON''), w)"
  by (simp add: lambda_handler_def prepare_def decode_body_def str_event_def broken_body_nonempty
        broken_platform_def table_platform_def)

lemma dry_run_world_unchanged:
  "DRY_RUN cfg \<Longrightarrow> snd (lambda_handler plat cfg w ev reqId) = w"
  by (simp add: lambda_handler_def upload_dry_run split: step.splits prod.splits)

lemma mixed_case_config_eval:
  "RAW_BUCKET_NAME (load_config [u ''DRY_RUN'' \<mapsto> u ''True'']) = u ''zoolanding-data-raw''"
  "\<not> DRY_RUN (load_config [u ''DRY_RUN'' \<mapsto> u ''True''])"
  by (simp_all add: load_config_def getenv_def dry_run_of_def u_def)

lemma dropWhile_all: "(dropWhile P xs = []) = (\<forall>x \<in> set xs. P x)"
  by (induction xs) auto

text \<open>
  Trimming leaves nothing exactly when every code point is white space.
\<close>

lemma py_strip_blank: "(py_strip s = []) = (\<forall>c \<in> set s. py_isspace c)"
proof
  assume "py_strip s = []"
  then have "dropWhile py_isspace (rev (dropWhile py_isspace s)) = []"
    by (simp add: py_strip_def)
  then have "\<forall>x \<in> set (rev (dropWhile py_isspace s)). py_isspace x"
    by (simp only: dropWhile_all)
  then have a: "\<forall>x \<in> set (dropWhile py_isspace s). py_isspace x"
    by (simp only: set_rev)
  have "dropWhile py_isspace s = []"
  proof (cases "dropWhile py_isspace s")
    case Nil
    then show ?thesis .
  next
    case (Cons x xs)
    then have "\<not> py_isspace x"
      by (metis hd_dropWhile list.sel(1) list.distinct(1))
    moreover from a Cons have "py_isspace x"
      by simp
    ultimately show ?thesis by blast
  qed
  then show "\<forall>c \<in> set s. py_isspace c"
    by (simp only: dropWhile_all)
next
  assume "\<forall>c \<in> set s. py_isspace c"
  then have "dropWhile py_isspace s = []"
    by (simp only: dropWhile_all)
  then show "py_strip s = []"
    by (simp only: py_strip_def rev.simps dropWhile.simps)
qed

text \<open>
  Where the parsed body is an object, a missing, non-text or blank \<open>appName\<close> is answered
  400 with \<open>Missing or invalid appName\<close>, and nothing is stored.
\<close>

lemma appname_rejected_for_objects:
  assumes "decode_body plat ev = Inr body_str"
    and "json_loads plat body_str = Inr (PDict kvs)"
    and "map_of kvs (u ''appName'') = None \<or>
         (\<exists>v. map_of kvs (u ''appName'') = Some v \<and> (\<forall>s. v \<noteq> PStr s)) \<or>
         (\<exists>s. map_of kvs (u ''appName'') = Some (PStr s) \<and> py_strip s = [])"
  shows "lambda_handler plat cfg w ev reqId = (bad_request (u ''Missing or invalid appName''), w)"
  using assms
  by (auto simp: lambda_handler_def prepare_def payload_get_def split: pyval.splits)

lemma huge_body_nonempty: "huge_body \<noteq> []"
  by (simp add: huge_body_def u_def)

lemma normalize_huge:
  "normalize_timestamp_to_ms (PInt huge_timestamp)
     = Inl (Exn OverflowError (u ''int too large to convert to float''))"
  by (simp add: huge_timestamp_def normalize_timestamp_to_ms_def normalize_int_def float_of_int_def
        round_double_def Let_def)

lemma normalize_float_overflow:
  "normalize_timestamp_to_ms (PFloat (Fin (- 1) 1020))
     = Inl (Exn OverflowError (u ''cannot convert float infinity to integer''))"
  by (simp add: normalize_timestamp_to_ms_def isfinite_def float_ge_int_def int_of_float_def
        fmul_1000_def round_double_def Let_def)

lemma huge_prepare:
  "prepare huge_platform (str_event huge_body) reqId
     = Raise (Exn OverflowError (u ''int too large to convert to float''))"
proof -
  let ?kvs = "[(u ''appName'', PStr (u ''demo'')), (u ''timestamp'', PInt huge_timestamp)]"
  have l: "json_loads huge_platform huge_body = Inr (PDict ?kvs)"
    by (simp add: huge_platform_def table_platform_def)
  have d: "decode_body huge_platform (str_event huge_body) = Inr huge_body"
    by (simp add: decode_body_def str_event_def huge_body_nonempty)
  have t: "map_of ?kvs (u ''timestamp'') = Some (PInt huge_timestamp)"
    by (simp add: u_def)
  have a: "map_of ?kvs (u ''appName'') = Some (PStr (u ''demo''))"
    by simp
  have k: "u ''timestamp'' \<noteq> u ''appName''"
    by (simp add: u_def)
  show ?thesis
    by (simp add: prepare_def d l payload_get_def k py_strip_demo normalize_huge)
qed

lemma missing_appname_text:
  \<open>bad_request (u ''Missing or invalid appName'') =
     \<lparr>statusCode = 400, headers = [(u ''Content-Type'', u ''application/json'')],
      body = u ''{"ok":false,"error":"Missing or invalid appName"}''\<rparr>\<close>
  by (simp add: bad_request_def json_response_def json_dumps_compact_def json_string_def
        json_field_def json_escape_char_def u_def)

lemma nameless_run:
  "lambda_handler nameless_platform cfg w (str_event (u ''{}'')) reqId
     = (bad_request (u ''Missing or invalid appName''), w)"
proof (rule appname_rejected_for_objects)
  show "decode_body nameless_platform (str_event (u ''{}'')) = Inr (u ''{}'')"
    by (simp add: decode_body_def str_event_def u_def)
  show "json_loads nameless_platform (u ''{}'') = Inr (PDict [])"
    by (simp add: nameless_platform_def table_platform_def)
  show "map_of [] (u ''appName'') = None \<or>
         (\<exists>v. map_of [] (u ''appName'') = Some v \<and> (\<forall>s. v \<noteq> PStr s)) \<or>
         (\<exists>s. map_of [] (u ''appName'') = Some (PStr s) \<and> py_strip s = [])"
    by simp
qed

text \<open>
  A timestamp that is missing, no number, or no finite number is refused with a
  ValueError, and the request is answered 400 with its text.
\<close>

lemma timestamp_rejected:
  assumes "ts = PNone \<or> (\<exists>s. ts = PStr s) \<or> (\<exists>xs. ts = PList xs) \<or> (\<exists>kvs. ts = PDict kvs) \<or>
           ts = PFloat NaN \<or> ts = PFloat PosInf \<or> ts = PFloat NegInf"
  shows "normalize_timestamp_to_ms ts = Inl (Exn ValueError (u ''Missing or invalid timestamp''))"
  using assms by (auto simp: normalize_timestamp_to_ms_def isfinite_def)

lemma invalid_timestamp_is_bad_request:
  assumes "decode_body plat ev = Inr body_str"
    and "json_loads plat body_str = Inr (PDict kvs)"
    and "map_of kvs (u ''appName'') = Some (PStr name)" and "py_strip name \<noteq> []"
    and "normalize_timestamp_to_ms (case map_of kvs (u ''timestamp'') of None \<Rightarrow> PNone | Some v \<Rightarrow> v)
           = Inl (Exn ValueError (u ''Missing or invalid timestamp''))"
  shows "lambda_handler plat cfg w ev reqId = (bad_request (u ''Missing or invalid timestamp''), w)"
  using assms by (simp add: lambda_handler_def prepare_def payload_get_def)

section \<open>Timestamps in range\<close>

lemma bitlen_less: "n < 2 ^ bitlen n"
proof (induction n rule: bitlen.induct)
  case (1 n)
  show ?case
  proof (cases "n = 0")
    case True
    then show ?thesis by simp
  next
    case False
    with 1 have "n div 2 < 2 ^ bitlen (n div 2)" by simp
    then have "n < 2 * 2 ^ bitlen (n div 2)" by linarith
    moreover from False have "bitlen n = Suc (bitlen (n div 2))" by (subst bitlen.simps) simp
    ultimately show ?thesis by simp
  qed
qed

lemma bitlen_le: "n < 2 ^ k \<Longrightarrow> bitlen n \<le> k"
proof (induction k arbitrary: n)
  case 0
  then show ?case by simp
next
  case (Suc k)
  show ?case
  proof (cases "n = 0")
    case True
    then show ?thesis by simp
  next
    case False
    from Suc.prems have "n div 2 < 2 ^ k" by simp
    then have "bitlen (n div 2) \<le> k" by (rule Suc.IH)
    moreover from False have "bitlen n = Suc (bitlen (n div 2))" by (subst bitlen.simps) simp
    ultimately show ?thesis by simp
  qed
qed

text \<open>
  An int below \<open>2 ^ 1024 - 2 ^ 970\<close> in magnitude rounds to a finite double: the rounded
  magnitude stays below \<open>2 ^ 1024\<close>.
\<close>

lemma round_double_finite_nat:
  fixes a :: nat
  assumes a: "a < 2 ^ 1024 - 2 ^ 970"
  defines "k \<equiv> bitlen a - 53"
  defines "q \<equiv> a div 2 ^ k"
  defines "r \<equiv> a mod 2 ^ k"
  defines "q' \<equiv> (if k = 0 then q
                else if 2 ^ (k - 1) < r \<or> (r = 2 ^ (k - 1) \<and> odd q) then q + 1
                else q)"
  shows "q' * 2 ^ k < 2 ^ 1024"
proof (cases "k = 0")
  case True
  then have "q' = a" by (simp add: q'_def q_def)
  with a True show ?thesis by simp
next
  case False
  from a have "a < 2 ^ 1024" by simp
  then have "bitlen a \<le> 1024" by (rule bitlen_le)
  with False have bl: "bitlen a = k + 53" and k: "k \<le> 971" by (simp_all add: k_def)
  have "a < 2 ^ (k + 53)" using bitlen_less[of a] by (simp add: bl)
  then have "a < 2 ^ 53 * 2 ^ k" by (simp add: power_add mult.commute)
  then have q: "q < 2 ^ 53" unfolding q_def by (rule less_mult_imp_div_less)
  have q'le: "q' \<le> q + 1" by (simp add: q'_def)
  show ?thesis
  proof (cases "k = 971")
    case k971: True
    have "q' \<le> 2 ^ 53 - 1"
    proof (cases "q = 2 ^ 53 - 1")
      case True
      have "a = q * 2 ^ k + r" unfolding q_def r_def by (rule div_mult_mod_eq[symmetric])
      with a True k971 have "r < 2 ^ 970" by simp
      with k971 False have "q' = q" by (simp add: q'_def)
      with True show ?thesis by simp
    next
      case False
      with q have "q + 1 \<le> 2 ^ 53 - 1" by simp
      with q'le show ?thesis by linarith
    qed
    then have "q' * 2 ^ 971 \<le> (2 ^ 53 - 1) * 2 ^ 971" by (rule mult_le_mono1)
    also have "\<dots> < (2 ^ 1024 :: nat)" by simp
    finally show ?thesis by (simp add: k971)
  next
    case False
    with k have "k \<le> 970" by simp
    from q q'le have "q' \<le> 2 ^ 53" by simp
    then have "q' * 2 ^ k \<le> 2 ^ 53 * 2 ^ k" by (rule mult_le_mono1)
    also have "\<dots> = 2 ^ (53 + k)" by (simp add: power_add)
    also have "\<dots> \<le> (2 ^ 1023 :: nat)" using \<open>k \<le> 970\<close> by (intro power_increasing) simp_all
    also have "\<dots> < (2 ^ 1024 :: nat)" by simp
    finally show ?thesis .
  qed
qed

lemma round_double_finite:
  assumes "\<bar>n\<bar> < 2 ^ 1024 - 2 ^ 970"
  shows "\<exists>m e. round_double n 0 = Fin m e"
proof -
  from assms have "nat \<bar>n\<bar> < 2 ^ 1024 - 2 ^ 970" by (simp add: nat_less_iff)
  from round_double_finite_nat[OF this]
  show ?thesis by (simp add: round_double_def Let_def not_le[symmetric])
qed

lemma normalize_int_in_range:
  assumes "\<bar>n\<bar> < 2 ^ 1024 - 2 ^ 970"
  shows "normalize_timestamp_to_ms (PInt n) = Inr (if 10 ^ 12 \<le> n then n else n * 1000)"
proof -
  from round_double_finite[OF assms] obtain m e where "round_double n 0 = Fin m e" by blast
  then show ?thesis
    by (simp add: normalize_timestamp_to_ms_def normalize_int_def float_of_int_def)
qed

lemma valid_double_magnitude:
  assumes v: "valid_double (Fin m e)" and m: "0 < m" and e: "0 \<le> e"
  shows "m * 2 ^ nat e < 2 ^ 1024 - 2 ^ 970"
proof -
  define b where "b = bitlen (nat m)"
  define E where "E = nat e"
  from v m have b53: "b \<le> 53" and "int b + e \<le> 1024"
    by (simp_all add: valid_double_def b_def)
  with e have bE: "b + E \<le> 1024" unfolding E_def by linarith
  have "nat m < 2 ^ b" unfolding b_def by (rule bitlen_less)
  then have mb: "nat m + 1 \<le> 2 ^ b" by linarith
  have "(nat m + 1) * 2 ^ E \<le> 2 ^ b * 2 ^ E" using mb by (rule mult_le_mono1)
  then have le: "nat m * 2 ^ E + 2 ^ E \<le> 2 ^ (b + E)" by (simp add: power_add algebra_simps)
  have "nat m * 2 ^ E < 2 ^ 1024 - 2 ^ 970"
  proof (cases "b + E = 1024")
    case True
    with b53 have "971 \<le> E" by simp
    then have "(2 :: nat) ^ 971 \<le> 2 ^ E" by (intro power_increasing) simp_all
    with le True have "nat m * 2 ^ E + 2 ^ 971 \<le> 2 ^ 1024" by simp
    then show ?thesis by simp
  next
    case False
    with bE have "b + E \<le> 1023" by simp
    then have "(2 :: nat) ^ (b + E) \<le> 2 ^ 1023" by (intro power_increasing) simp_all
    with le have "nat m * 2 ^ E \<le> 2 ^ 1023" by linarith
    then show ?thesis by simp
  qed
  then have "int (nat m * 2 ^ E) < int (2 ^ 1024 - 2 ^ 970)" by (simp only: of_nat_less_iff)
  with m show ?thesis by (simp add: E_def)
qed

text \<open>
  For a double of at least \<open>10 ^ 12\<close>, \<open>int\<close> gives the whole number \<open>t\<close> with
  \<open>t \<le> x < t + 1\<close>, itself at least \<open>10 ^ 12\<close> and within the doubles.
\<close>

lemma int_of_float_ms:
  assumes v: "valid_double (Fin m e)" and g: "float_ge_int (Fin m e) (10 ^ 12)"
  shows "\<exists>t. int_of_float (Fin m e) = Inr t \<and> 10 ^ 12 \<le> t \<and> t < 2 ^ 1024 - 2 ^ 970 \<and>
             float_ge_int (Fin m e) t \<and> \<not> float_ge_int (Fin m e) (t + 1) \<and>
             (\<forall>n. float_eq_int (Fin m e) n \<longrightarrow> t = n)"
proof (cases "0 \<le> e")
  case True
  with g have ge: "10 ^ 12 \<le> m * 2 ^ nat e" by (simp add: float_ge_int_def)
  have "0 < m"
  proof (rule ccontr)
    assume "\<not> 0 < m"
    then have "m * 2 ^ nat e \<le> 0" by (simp add: mult_le_0_iff)
    with ge show False by simp
  qed
  from valid_double_magnitude[OF v this True] ge True show ?thesis
    by (auto simp: int_of_float_def float_ge_int_def float_eq_int_def)
next
  case False
  define k where "k = nat (- e)"
  define t where "t = m div 2 ^ k"
  have p: "(0 :: int) < 2 ^ k" by simp
  from False g have ge: "10 ^ 12 * 2 ^ k \<le> m" by (simp add: float_ge_int_def k_def)
  have "(0 :: int) < 10 ^ 12 * 2 ^ k" by simp
  with ge have mpos: "0 < m" by linarith
  then have m0: "0 \<le> m" by simp
  have "(10 ^ 12 * 2 ^ k) div 2 ^ k \<le> m div 2 ^ k" using ge p by (rule zdiv_mono1)
  then have t12: "10 ^ 12 \<le> t" by (simp add: t_def)
  have "t \<le> m" unfolding t_def using mpos by (rule int_div_le_self)
  moreover have "m < 2 ^ 53"
  proof -
    from v have "bitlen (nat m) \<le> 53" using m0 by (simp add: valid_double_def)
    then have "(2 :: nat) ^ bitlen (nat m) \<le> 2 ^ 53" by (intro power_increasing) simp_all
    with bitlen_less[of "nat m"] have "nat m < 2 ^ 53" by linarith
    with m0 show ?thesis by (simp add: nat_less_iff)
  qed
  ultimately have tb: "t < 2 ^ 1024 - 2 ^ 970" by simp
  have eq: "m = t * 2 ^ k + m mod 2 ^ k"
    unfolding t_def by (rule div_mult_mod_eq[symmetric])
  have "0 \<le> m mod 2 ^ k" using p by (rule pos_mod_sign)
  with eq have lo: "t * 2 ^ k \<le> m" by linarith
  have "m mod 2 ^ k < 2 ^ k" using p by (rule pos_mod_bound)
  with eq have "m < t * 2 ^ k + 2 ^ k" by linarith
  moreover have "(t + 1) * 2 ^ k = t * 2 ^ k + 2 ^ k" by (simp add: algebra_simps)
  ultimately have hi: "m < (t + 1) * 2 ^ k" by simp
  have whole: "\<forall>n. m = n * 2 ^ k \<longrightarrow> t = n"
    by (simp add: t_def)
  from False m0 t12 tb lo hi whole show ?thesis
    by (simp add: int_of_float_def float_ge_int_def float_eq_int_def k_def[symmetric] t_def[symmetric])
qed

lemma normalize_float_ms:
  assumes "float_ge_int (Fin m e) (10 ^ 12)"
  shows "normalize_timestamp_to_ms (PFloat (Fin m e)) = int_of_float (Fin m e)"
  using assms by (simp add: normalize_timestamp_to_ms_def isfinite_def)


lemma surrogate_body_eval: "surrogate_body \<noteq> []" "utf8_encode surrogate_body = None"
  by (simp_all add: surrogate_body_def u_def utf8_char_def)

lemma surrogate_prepare:
  "prepare surrogate_platform (str_event surrogate_body) reqId
     = Raise (Exn ValueError (u ''surrogates not allowed''))"
proof -
  let ?kvs = "[(u ''appName'', PStr (u ''demo'')), (u ''timestamp'', PInt 1700000000),
               (u ''x'', PStr [55296])]"
  have l: "json_loads surrogate_platform surrogate_body = Inr (PDict ?kvs)"
    by (simp add: surrogate_platform_def table_platform_def)
  have d: "decode_body surrogate_platform (str_event surrogate_body) = Inr surrogate_body"
    by (simp add: decode_body_def str_event_def surrogate_body_eval)
  have k: "u ''timestamp'' \<noteq> u ''appName''"
    by (simp add: u_def)
  have e: "encode_error_text surrogate_platform surrogate_body = u ''surrogates not allowed''"
    by (simp add: surrogate_platform_def table_platform_def)
  show ?thesis
    by (simp add: prepare_def d l payload_get_def k py_strip_demo normalize_demo
          derive_date_parts_demo surrogate_body_eval e)
qed


section \<open>The claims\<close>

subsection \<open>C1: the key and the response of the worked example\<close>

text \<open>
  C1, as stated: every such request is answered 200. It is not when the storage fails or
  the body has no UTF-8 encoding: the worked example in live mode with a \<open>put_object\<close>
  that raises is answered 500, and the same request with a lone surrogate in a further
  field is answered 400.
\<close>

theorem demo_request_without_success_response:
  "decode_body (demo_platform (Some (Exn OtherError (u ''ServiceUnavailable''))))
      (str_event demo_body) = Inr demo_body \<and>
   json_loads (demo_platform (Some (Exn OtherError (u ''ServiceUnavailable'')))) demo_body
     = Inr (PDict [(u ''appName'', PStr (u ''demo'')), (u ''timestamp'', PInt 1700000000)]) \<and>
   demo_reqId = PStr (u ''req-0000'' @ u ''ABCD1234'') \<and>
   statusCode (fst (lambda_handler (demo_platform (Some (Exn OtherError (u ''ServiceUnavailable''))))
                      live_config fresh_world (str_event demo_body) demo_reqId)) = 500 \<and>
   decode_body surrogate_platform (str_event surrogate_body) = Inr surrogate_body \<and>
   json_loads surrogate_platform surrogate_body
     = Inr (PDict [(u ''appName'', PStr (u ''demo'')), (u ''timestamp'', PInt 1700000000),
                   (u ''x'', PStr [55296])]) \<and>
   statusCode (fst (lambda_handler surrogate_platform live_config fresh_world
                      (str_event surrogate_body) demo_reqId)) = 400"
proof -
  let ?P = "demo_platform (Some (Exn OtherError (u ''ServiceUnavailable'')))"
  have l: "json_loads ?P demo_body
     = Inr (PDict [(u ''appName'', PStr (u ''demo'')), (u ''timestamp'', PInt 1700000000)])"
    by (simp add: loads_demo demo_payload_def)
  have f: "(\<exists>e. get_s3_client ?P live_config fresh_world = Inl e) \<or>
         (\<exists>e. put_object ?P \<lparr>Bucket = RAW_BUCKET_NAME live_config, Key = demo_key, Body = demo_body,
                                ContentType = u ''application/json''\<rparr> = Some e)"
    by (simp add: demo_platform_def table_platform_def)
  have "fst (upload_and_respond ?P live_config fresh_world demo_key demo_body) = server_error"
    using live_config_eval(2) f by (rule upload_live_fail)
  then have a: "statusCode (fst (lambda_handler ?P live_config fresh_world (str_event demo_body) demo_reqId)) = 500"
    by (simp add: lambda_handler_def demo_prepare)
  have l2: "json_loads surrogate_platform surrogate_body
     = Inr (PDict [(u ''appName'', PStr (u ''demo'')), (u ''timestamp'', PInt 1700000000),
                   (u ''x'', PStr [55296])])"
    by (simp add: surrogate_platform_def table_platform_def)
  have d2: "decode_body surrogate_platform (str_event surrogate_body) = Inr surrogate_body"
    by (simp add: decode_body_def str_event_def surrogate_body_eval)
  have b: "statusCode (fst (lambda_handler surrogate_platform live_config fresh_world
                      (str_event surrogate_body) demo_reqId)) = 400"
    by (simp add: lambda_handler_def surrogate_prepare on_exception_def)
  from decode_demo l demo_reqId_suffix a d2 l2 b show ?thesis by blast
qed

text \<open>
  C1, amended: a request whose decoded body parses to an object with \<open>appName\<close> \<open>"demo"\<close>
  and \<open>timestamp\<close> 1700000000, under a request identifier that ends in \<open>ABCD1234\<close>, and
  whose body text has a UTF-8 encoding, gets the key
  \<open>demo/2023/11/14/1700000000000-ABCD1234.json\<close>; when the upload step raises nothing
  (dry-run mode, or a client at hand and a \<open>put_object\<close> that returns), the response is
  200 with \<open>ok: true\<close>, the configured bucket, that key and the number of bytes of the
  body's UTF-8 encoding (and \<open>dryRun\<close> in dry-run mode).
\<close>

theorem demo_request_key_and_response:
  assumes "decode_body plat ev = Inr body_str"
    and "json_loads plat body_str = Inr (PDict kvs)"
    and "map_of kvs (u ''appName'') = Some (PStr (u ''demo''))"
    and "map_of kvs (u ''timestamp'') = Some (PInt 1700000000)"
    and "reqId = PStr (pre @ u ''ABCD1234'')"
    and "utf8_encode body_str = Some bs"
    and "upload_succeeds plat cfg w (u ''demo/2023/11/14/1700000000000-ABCD1234.json'') bs"
  shows "prepare plat ev reqId = Continue (u ''demo/2023/11/14/1700000000000-ABCD1234.json'', bs) \<and>
         fst (lambda_handler plat cfg w ev reqId) =
           json_response 200
             ([(u ''ok'', JBool True), (u ''bucket'', JStr (RAW_BUCKET_NAME cfg)),
               (u ''key'', JStr (u ''demo/2023/11/14/1700000000000-ABCD1234.json'')),
               (u ''size'', JInt (int (length bs)))] @
              (if DRY_RUN cfg then [(u ''dryRun'', JBool True)] else []))"
proof -
  have n: "normalize_timestamp_to_ms (case map_of kvs (u ''timestamp'') of None \<Rightarrow> PNone | Some v \<Rightarrow> v)
             = Inr 1700000000000"
    using assms(4) by (simp add: normalize_demo)
  have "prepare plat ev reqId =
          Continue (build_key (u ''demo'') (u ''2023'') (u ''11'') (u ''14'') 1700000000000
                      (get_request_id plat reqId), bs)"
    using assms(1,2,3) py_strip_demo n derive_date_parts_demo assms(6) by (rule prepare_valid)
  then have p: "prepare plat ev reqId =
      Continue (u ''demo/2023/11/14/1700000000000-ABCD1234.json'', bs)"
    by (simp add: assms(5) get_request_id_suffix length_ABCD1234 build_key_demo_text)
  from upload_succeeds_response[OF assms(7)] p
  have "fst (lambda_handler plat cfg w ev reqId) =
      json_response 200 (success_body cfg (u ''demo/2023/11/14/1700000000000-ABCD1234.json'') (length bs))"
    by (simp add: lambda_handler_def)
  with p show ?thesis by (simp add: success_body_def)
qed

text \<open>
  A run of the amended C1 in live mode: the text of the response body.
\<close>

theorem demo_request_key_and_response_witness:
  \<open>body (fst (lambda_handler (demo_platform None) live_config fresh_world (str_event demo_body) demo_reqId))
     = u ''{"ok":true,"bucket":"zoolanding-data-raw","key":"demo/2023/11/14/1700000000000-ABCD1234.json","size":41}''\<close>
proof -
  have l: "json_loads (demo_platform None) demo_body =
        Inr (PDict [(u ''appName'', PStr (u ''demo'')), (u ''timestamp'', PInt 1700000000)])"
    by (simp add: loads_demo demo_payload_def)
  have a: "map_of [(u ''appName'', PStr (u ''demo'')), (u ''timestamp'', PInt 1700000000)] (u ''appName'')
        = Some (PStr (u ''demo''))" by simp
  have t: "map_of [(u ''appName'', PStr (u ''demo'')), (u ''timestamp'', PInt 1700000000)] (u ''timestamp'')
        = Some (PInt 1700000000)" by (simp add: u_def)
  note r = demo_request_key_and_response[OF decode_demo l a t demo_reqId_suffix utf8_encode_demo_body
      demo_upload_succeeds]
  show ?thesis
    by (simp add: r live_config_eval length_demo_body json_response_def json_dumps_compact_def
          json_string_def json_field_def json_escape_char_def str_of_int_def u_def)
qed

subsection \<open>C2: normalisation of every finite numeric timestamp\<close>

text \<open>
  C2 at the timestamp \<open>10 ^ 309\<close>, finite and numeric: \<open>math.isfinite\<close> raises
  OverflowError, no number of milliseconds is returned, and the handler answers 500. The
  same for the double \<open>-2 ^ 1020\<close>, whose product with 1000 is an infinity that \<open>int\<close>
  rejects.
\<close>

theorem huge_timestamp_is_server_error:
  \<open>huge_timestamp = 10 ^ 309 \<and>
   normalize_timestamp_to_ms (PInt huge_timestamp)
     = Inl (Exn OverflowError (u ''int too large to convert to float'')) \<and>
   valid_double (Fin (- 1) 1020) \<and>
   normalize_timestamp_to_ms (PFloat (Fin (- 1) 1020))
     = Inl (Exn OverflowError (u ''cannot convert float infinity to integer'')) \<and>
   lambda_handler huge_platform live_config fresh_world (str_event huge_body) demo_reqId
     = (\<lparr>statusCode = 500, headers = [(u ''Content-Type'', u ''application/json'')],
         body = u ''{"ok":false,"error":"Internal error"}''\<rparr>, fresh_world)\<close>
proof -
  have "lambda_handler huge_platform live_config fresh_world (str_event huge_body) demo_reqId
     = (server_error, fresh_world)"
    by (simp add: lambda_handler_def huge_prepare on_exception_def)
  moreover have "valid_double (Fin (- 1) 1020)"
    by (simp add: valid_double_def)
  ultimately show ?thesis
    using normalize_huge normalize_float_overflow huge_timestamp_def
    by (simp only: server_error_text simp_thms)
qed

subsection \<open>C3: the stored bytes and the reported size\<close>

text \<open>
  C3. Whatever the invocation, a call of \<open>put_object\<close> it makes carries as \<open>Body\<close> the UTF-8
  encoding of the decoded body text (one call at most), and the \<open>size\<close> of a 200 response is
  the number of bytes of that same encoding.
\<close>

theorem stored_bytes_are_decoded_body:
  assumes run: "lambda_handler plat cfg w ev reqId = (r, w')"
  shows "(puts w' = puts w \<or>
          (\<exists>body_str bs key.
             decode_body plat ev = Inr body_str \<and> utf8_encode body_str = Some bs \<and>
             puts w' = puts w @ [\<lparr>Bucket = RAW_BUCKET_NAME cfg, Key = key, Body = bs,
                                   ContentType = u ''application/json''\<rparr>])) \<and>
         (statusCode r = 200 \<longrightarrow>
          (\<exists>body_str bs key.
             decode_body plat ev = Inr body_str \<and> utf8_encode body_str = Some bs \<and>
             r = json_response 200
                   ([(u ''ok'', JBool True), (u ''bucket'', JStr (RAW_BUCKET_NAME cfg)),
                     (u ''key'', JStr key), (u ''size'', JInt (int (length bs)))] @
                    (if DRY_RUN cfg then [(u ''dryRun'', JBool True)] else []))))"
proof (cases "prepare plat ev reqId")
  case (Return r0)
  with run have "r = r0" "w' = w" by (simp_all add: lambda_handler_def)
  with prepare_Return_400[OF Return] show ?thesis by simp
next
  case (Raise e)
  with run have "r = on_exception e" "w' = w" by (simp_all add: lambda_handler_def)
  then show ?thesis by (simp add: statusCode_on_exception)
next
  case (Continue kb)
  obtain key bs where kb: "kb = (key, bs)" by (cases kb)
  with Continue have p: "prepare plat ev reqId = Continue (key, bs)" by simp
  from prepare_Continue_body[OF p] obtain body_str
    where b: "decode_body plat ev = Inr body_str" "utf8_encode body_str = Some bs" by blast
  from run p have up: "upload_and_respond plat cfg w key bs = (r, w')"
    by (simp add: lambda_handler_def)
  note c = upload_cases[OF up]
  have one: "puts w' = puts w \<or>
          (\<exists>body_str bs key.
             decode_body plat ev = Inr body_str \<and> utf8_encode body_str = Some bs \<and>
             puts w' = puts w @ [\<lparr>Bucket = RAW_BUCKET_NAME cfg, Key = key, Body = bs,
                                   ContentType = u ''application/json''\<rparr>])"
    using c b by blast
  have two: "statusCode r = 200 \<longrightarrow>
          (\<exists>body_str bs key.
             decode_body plat ev = Inr body_str \<and> utf8_encode body_str = Some bs \<and>
             r = json_response 200
                   ([(u ''ok'', JBool True), (u ''bucket'', JStr (RAW_BUCKET_NAME cfg)),
                     (u ''key'', JStr key), (u ''size'', JInt (int (length bs)))] @
                    (if DRY_RUN cfg then [(u ''dryRun'', JBool True)] else [])))"
  proof
    assume "statusCode r = 200"
    with c have "r = json_response 200 (success_body cfg key (length bs))" by auto
    then have "r = json_response 200
                   ([(u ''ok'', JBool True), (u ''bucket'', JStr (RAW_BUCKET_NAME cfg)),
                     (u ''key'', JStr key), (u ''size'', JInt (int (length bs)))] @
                    (if DRY_RUN cfg then [(u ''dryRun'', JBool True)] else []))"
      by (simp add: success_body_def)
    with b show "\<exists>body_str bs key.
             decode_body plat ev = Inr body_str \<and> utf8_encode body_str = Some bs \<and>
             r = json_response 200
                   ([(u ''ok'', JBool True), (u ''bucket'', JStr (RAW_BUCKET_NAME cfg)),
                     (u ''key'', JStr key), (u ''size'', JInt (int (length bs)))] @
                    (if DRY_RUN cfg then [(u ''dryRun'', JBool True)] else []))"
      by blast
  qed
  from one two show ?thesis by blast
qed

text \<open>
  A run of C3: the worked example in live mode stores the 41 bytes of its body and
  reports the size 41.
\<close>

theorem stored_bytes_are_decoded_body_witness:
  "puts (snd (lambda_handler (demo_platform None) live_config fresh_world (str_event demo_body) demo_reqId))
     = [\<lparr>Bucket = u ''zoolanding-data-raw'', Key = demo_key, Body = demo_body,
          ContentType = u ''application/json''\<rparr>] \<and>
   utf8_encode demo_body = Some demo_body \<and>
   (\<exists>key. fst (lambda_handler (demo_platform None) live_config fresh_world (str_event demo_body) demo_reqId)
      = json_response 200
          [(u ''ok'', JBool True), (u ''bucket'', JStr (u ''zoolanding-data-raw'')),
           (u ''key'', JStr key), (u ''size'', JInt 41)])"
proof -
  let ?X = "lambda_handler (demo_platform None) live_config fresh_world (str_event demo_body) demo_reqId"
  have run: "?X = (fst ?X, snd ?X)" by simp
  have st: "statusCode (fst ?X) = 200" by (simp add: demo_live_run)
  from stored_bytes_are_decoded_body[OF run] st
  obtain body_str bs key where
    d: "decode_body (demo_platform None) (str_event demo_body) = Inr body_str"
    and e: "utf8_encode body_str = Some bs"
    and r: "fst ?X = json_response 200
                   ([(u ''ok'', JBool True), (u ''bucket'', JStr (RAW_BUCKET_NAME live_config)),
                     (u ''key'', JStr key), (u ''size'', JInt (int (length bs)))] @
                    (if DRY_RUN live_config then [(u ''dryRun'', JBool True)] else []))"
    by blast
  from d have "body_str = demo_body" by (simp add: decode_demo)
  with e have "bs = demo_body" by (simp add: utf8_encode_demo_body)
  with r have "fst ?X = json_response 200
          [(u ''ok'', JBool True), (u ''bucket'', JStr (u ''zoolanding-data-raw'')),
           (u ''key'', JStr key), (u ''size'', JInt 41)]"
    by (simp add: live_config_eval length_demo_body)
  then show ?thesis by (auto simp: demo_live_run utf8_encode_demo_body)
qed

subsection \<open>C4: requests without a usable appName\<close>

text \<open>
  C4 at the body \<open>[]\<close>: it parses, it has no \<open>appName\<close>, and \<open>payload.get\<close> raises
  AttributeError, which the handler answers with 500 and \<open>Internal error\<close>, where the
  claim has 400 and \<open>Missing or invalid appName\<close>. The object \<open>{}\<close> is answered as the
  claim says. Nothing is stored in either run.
\<close>

theorem non_object_body_is_server_error:
  \<open>json_loads array_platform (u ''[]'') = Inr (PList []) \<and>
   lambda_handler array_platform live_config fresh_world (str_event (u ''[]'')) demo_reqId
     = (\<lparr>statusCode = 500, headers = [(u ''Content-Type'', u ''application/json'')],
         body = u ''{"ok":false,"error":"Internal error"}''\<rparr>, fresh_world) \<and>
   lambda_handler nameless_platform live_config fresh_world (str_event (u ''{}'')) demo_reqId
     = (\<lparr>statusCode = 400, headers = [(u ''Content-Type'', u ''application/json'')],
         body = u ''{"ok":false,"error":"Missing or invalid appName"}''\<rparr>, fresh_world)\<close>
proof -
  have l: "json_loads array_platform (u ''[]'') = Inr (PList [])"
    by (simp add: array_platform_def table_platform_def)
  have d: "decode_body array_platform (str_event (u ''[]'')) = Inr (u ''[]'')"
    by (simp add: decode_body_def str_event_def u_def)
  have "lambda_handler array_platform live_config fresh_world (str_event (u ''[]'')) demo_reqId
     = (server_error, fresh_world)"
    by (simp add: lambda_handler_def prepare_def d l payload_get_def on_exception_def)
  with l show ?thesis by (simp only: server_error_text nameless_run missing_appname_text simp_thms)
qed

subsection \<open>C5: dry-run mode\<close>

text \<open>
  C5. In dry-run mode the state is left as it was for every input (no call of
  \<open>put_object\<close>, no client built), and a request that passes every check is answered
  200 with \<open>ok\<close>, \<open>bucket\<close>, \<open>key\<close>, \<open>size\<close> and \<open>dryRun: true\<close>.
\<close>

theorem dry_run_skips_storage:
  assumes "DRY_RUN cfg"
  shows "snd (lambda_handler plat cfg w ev reqId) = w \<and>
         (decode_body plat ev = Inr body_str \<and>
          json_loads plat body_str = Inr (PDict kvs) \<and>
          map_of kvs (u ''appName'') = Some (PStr name) \<and> py_strip name \<noteq> [] \<and>
          normalize_timestamp_to_ms (case map_of kvs (u ''timestamp'') of None \<Rightarrow> PNone | Some v \<Rightarrow> v)
            = Inr ts_ms \<and>
          derive_date_parts plat ts_ms = Inr (yyyy, mm, dd) \<and>
          utf8_encode body_str = Some bs
          \<longrightarrow> fst (lambda_handler plat cfg w ev reqId) =
                json_response 200
                  [(u ''ok'', JBool True), (u ''bucket'', JStr (RAW_BUCKET_NAME cfg)),
                   (u ''key'', JStr (build_key name yyyy mm dd ts_ms (get_request_id plat reqId))),
                   (u ''size'', JInt (int (length bs))), (u ''dryRun'', JBool True)])"
proof (intro conjI impI)
  show "snd (lambda_handler plat cfg w ev reqId) = w"
    using assms by (simp add: lambda_handler_def upload_dry_run split: step.splits prod.splits)
next
  assume v: "decode_body plat ev = Inr body_str \<and>
          json_loads plat body_str = Inr (PDict kvs) \<and>
          map_of kvs (u ''appName'') = Some (PStr name) \<and> py_strip name \<noteq> [] \<and>
          normalize_timestamp_to_ms (case map_of kvs (u ''timestamp'') of None \<Rightarrow> PNone | Some v \<Rightarrow> v)
            = Inr ts_ms \<and>
          derive_date_parts plat ts_ms = Inr (yyyy, mm, dd) \<and>
          utf8_encode body_str = Some bs"
  then have "prepare plat ev reqId =
           Continue (build_key name yyyy mm dd ts_ms (get_request_id plat reqId), bs)"
    by (intro prepare_valid) auto
  then show "fst (lambda_handler plat cfg w ev reqId) =
                json_response 200
                  [(u ''ok'', JBool True), (u ''bucket'', JStr (RAW_BUCKET_NAME cfg)),
                   (u ''key'', JStr (build_key name yyyy mm dd ts_ms (get_request_id plat reqId))),
                   (u ''size'', JInt (int (length bs))), (u ''dryRun'', JBool True)]"
    using assms by (simp add: lambda_handler_def upload_dry_run success_body_def)
qed

text \<open>
  A run of C5 on the worked example, with a \<open>put_object\<close> that would raise if it were
  called.
\<close>

theorem dry_run_skips_storage_witness:
  \<open>DRY_RUN dry_config \<and>
   snd (lambda_handler (demo_platform (Some (Exn OtherError (u ''unreachable'')))) dry_config fresh_world
          (str_event demo_body) demo_reqId) = fresh_world \<and>
   body (fst (lambda_handler (demo_platform (Some (Exn OtherError (u ''unreachable'')))) dry_config fresh_world
          (str_event demo_body) demo_reqId))
     = u ''{"ok":true,"bucket":"zoolanding-data-raw","key":"demo/2023/11/14/1700000000000-ABCD1234.json","size":41,"dryRun":true}''\<close>
proof -
  let ?P = "demo_platform (Some (Exn OtherError (u ''unreachable'')))"
  note t = dry_run_skips_storage[OF dry_config_eval(2), where plat = ?P and w = fresh_world
      and ev = "str_event demo_body" and reqId = demo_reqId and body_str = demo_body
      and kvs = "[(u ''appName'', PStr (u ''demo'')), (u ''timestamp'', PInt 1700000000)]"
      and name = "u ''demo''" and ts_ms = 1700000000000 and yyyy = "u ''2023''" and mm = "u ''11''"
      and dd = "u ''14''" and bs = demo_body]
  from t demo_valid[of "Some (Exn OtherError (u ''unreachable''))"]
  have r: "fst (lambda_handler ?P dry_config fresh_world (str_event demo_body) demo_reqId) =
        json_response 200
          [(u ''ok'', JBool True), (u ''bucket'', JStr (RAW_BUCKET_NAME dry_config)),
           (u ''key'', JStr (build_key (u ''demo'') (u ''2023'') (u ''11'') (u ''14'') 1700000000000
                              (get_request_id ?P demo_reqId))),
           (u ''size'', JInt (int (length demo_body))), (u ''dryRun'', JBool True)]"
    by blast
  from t have s: "snd (lambda_handler ?P dry_config fresh_world (str_event demo_body) demo_reqId) = fresh_world"
    by blast
  show ?thesis
    unfolding r s get_request_id_demo build_key_demo
    by (simp add: dry_config_eval length_demo_body demo_key_def
          json_response_def json_dumps_compact_def json_string_def json_field_def
          json_escape_char_def str_of_int_def u_def)
qed

subsection \<open>C6: server errors\<close>

text \<open>
  C6. Every server-error outcome has the status 500 and exactly the body
  \<open>{"ok":false,"error":"Internal error"}\<close>: whenever the handler answers 500, whenever an
  exception other than a ValueError reaches the outer \<open>except\<close> clauses, and whenever, in
  live mode, the storage client cannot be built or \<open>put_object\<close> raises. The text of the
  underlying exception is no part of the response.
\<close>

theorem server_error_response_generic:
  assumes run: "lambda_handler plat cfg w ev reqId = (r, w')"
    and fault:
      "statusCode r = 500 \<or>
       (\<exists>e. prepare plat ev reqId = Raise e \<and> exn_cls e \<noteq> ValueError) \<or>
       (\<exists>key bs. prepare plat ev reqId = Continue (key, bs) \<and> \<not> DRY_RUN cfg \<and>
          ((\<exists>e. get_s3_client plat cfg w = Inl e) \<or>
           (\<exists>e. put_object plat \<lparr>Bucket = RAW_BUCKET_NAME cfg, Key = key, Body = bs,
                                  ContentType = u ''application/json''\<rparr> = Some e)))"
  shows \<open>r = \<lparr>statusCode = 500, headers = [(u ''Content-Type'', u ''application/json'')],
               body = u ''{"ok":false,"error":"Internal error"}''\<rparr>\<close>
proof -
  have "r = server_error"
    using fault
  proof (elim disjE exE conjE)
    assume "statusCode r = 500"
    with run show ?thesis by (rule handler_status_500)
  next
    fix e assume "prepare plat ev reqId = Raise e" "exn_cls e \<noteq> ValueError"
    with run show ?thesis by (simp add: lambda_handler_def on_exception_def)
  next
    fix key bs e
    assume p: "prepare plat ev reqId = Continue (key, bs)" and live: "\<not> DRY_RUN cfg"
      and "get_s3_client plat cfg w = Inl e"
    then have "fst (upload_and_respond plat cfg w key bs) = server_error"
      by (intro upload_live_fail) auto
    with run p show ?thesis by (simp add: lambda_handler_def)
  next
    fix key bs e
    assume p: "prepare plat ev reqId = Continue (key, bs)" and live: "\<not> DRY_RUN cfg"
      and "put_object plat \<lparr>Bucket = RAW_BUCKET_NAME cfg, Key = key, Body = bs,
                             ContentType = u ''application/json''\<rparr> = Some e"
    then have "fst (upload_and_respond plat cfg w key bs) = server_error"
      by (intro upload_live_fail) auto
    with run p show ?thesis by (simp add: lambda_handler_def)
  qed
  then show ?thesis by (simp only: server_error_text)
qed

text \<open>
  A run of C6: \<open>put_object\<close> raises an error that names the bucket; the response is the
  generic one.
\<close>

theorem server_error_response_generic_witness:
  \<open>fst (lambda_handler (demo_platform (Some (Exn OtherError (u ''AccessDenied: s3:PutObject on zoolanding-data-raw''))))
          live_config fresh_world (str_event demo_body) demo_reqId)
   = \<lparr>statusCode = 500, headers = [(u ''Content-Type'', u ''application/json'')],
      body = u ''{"ok":false,"error":"Internal error"}''\<rparr>\<close>
proof -
  let ?P = "demo_platform (Some (Exn OtherError (u ''AccessDenied: s3:PutObject on zoolanding-data-raw'')))"
  let ?X = "lambda_handler ?P live_config fresh_world (str_event demo_body) demo_reqId"
  have run: "?X = (fst ?X, snd ?X)" by simp
  have fault: "statusCode (fst ?X) = 500 \<or>
       (\<exists>e. prepare ?P (str_event demo_body) demo_reqId = Raise e \<and> exn_cls e \<noteq> ValueError) \<or>
       (\<exists>key bs. prepare ?P (str_event demo_body) demo_reqId = Continue (key, bs) \<and> \<not> DRY_RUN live_config \<and>
          ((\<exists>e. get_s3_client ?P live_config fresh_world = Inl e) \<or>
           (\<exists>e. put_object ?P \<lparr>Bucket = RAW_BUCKET_NAME live_config, Key = key, Body = bs,
                                  ContentType = u ''application/json''\<rparr> = Some e)))"
  proof -
    have p: "prepare ?P (str_event demo_body) demo_reqId = Continue (demo_key, demo_body)"
      by (rule demo_prepare)
    have f: "put_object ?P \<lparr>Bucket = RAW_BUCKET_NAME live_config, Key = demo_key, Body = demo_body,
                  ContentType = u ''application/json''\<rparr>
               = Some (Exn OtherError (u ''AccessDenied: s3:PutObject on zoolanding-data-raw''))"
      by (simp add: demo_platform_def table_platform_def)
    from p f live_config_eval(2) show ?thesis by blast
  qed
  show ?thesis by (rule server_error_response_generic[OF run fault])
qed

subsection \<open>C7: bodies that are not JSON\<close>

text \<open>
  C7, as stated: the text of the parser's error appears in the message of the 400
  response. It does not: for the body \<open>{not valid\<close> the response body is
  \<open>{"ok":false,"error":"Body is not valid JSON"}\<close>, which does not contain the parser's text.
\<close>

theorem parse_error_text_not_in_response:
  \<open>json_loads broken_platform broken_body = Inl (Exn ValueError broken_text) \<and>
   body (fst (lambda_handler broken_platform live_config fresh_world (str_event broken_body) demo_reqId))
     = u ''{"ok":false,"error":"Body is not valid JSON"}'' \<and>
   \<not> contains
       (body (fst (lambda_handler broken_platform live_config fresh_world (str_event broken_body) demo_reqId)))
       broken_text\<close>
  by (simp add: broken_run bad_request_text)
     (simp add: broken_platform_def table_platform_def broken_text_def u_def)

text \<open>
  C7, amended: a body that fails to parse is answered 400 with the fixed message
  \<open>Body is not valid JSON\<close>, whatever the parser's exception, and nothing is stored.
\<close>

theorem invalid_json_fixed_message:
  assumes "decode_body plat ev = Inr body_str" and "json_loads plat body_str = Inl e"
  shows \<open>lambda_handler plat cfg w ev reqId =
          (\<lparr>statusCode = 400, headers = [(u ''Content-Type'', u ''application/json'')],
            body = u ''{"ok":false,"error":"Body is not valid JSON"}''\<rparr>, w)\<close>
  using assms by (simp add: lambda_handler_def prepare_def bad_request_text)

text \<open>
  A run of the amended C7 in dry-run mode.
\<close>

theorem invalid_json_fixed_message_witness:
  \<open>lambda_handler broken_platform dry_config fresh_world (str_event broken_body) PNone =
     (\<lparr>statusCode = 400, headers = [(u ''Content-Type'', u ''application/json'')],
       body = u ''{"ok":false,"error":"Body is not valid JSON"}''\<rparr>, fresh_world)\<close>
proof -
  have d: "decode_body broken_platform (str_event broken_body) = Inr broken_body"
    by (simp add: decode_body_def str_event_def broken_body_nonempty)
  have l: "json_loads broken_platform broken_body = Inl (Exn ValueError broken_text)"
    by (simp add: broken_platform_def table_platform_def)
  show ?thesis by (rule invalid_json_fixed_message[OF d l])
qed

subsection \<open>C8: the values of DRY_RUN\<close>

text \<open>
  C8, as stated: every case-insensitive variant of \<open>1\<close>, \<open>true\<close> or \<open>yes\<close> enables dry-run
  mode. It does not: with \<open>DRY_RUN=True\<close> the mode is off and the worked example is
  stored.
\<close>

theorem mixed_case_dry_run_not_enabled:
  "spec_true_like (u ''True'') \<and>
   \<not> DRY_RUN (load_config [u ''DRY_RUN'' \<mapsto> u ''True'']) \<and>
   puts (snd (lambda_handler (demo_platform None) (load_config [u ''DRY_RUN'' \<mapsto> u ''True''])
                fresh_world (str_event demo_body) demo_reqId))
     = [\<lparr>Bucket = u ''zoolanding-data-raw'', Key = demo_key, Body = demo_body,
          ContentType = u ''application/json''\<rparr>]"
proof -
  have "spec_true_like (u ''True'')"
    by (simp add: spec_true_like_def ascii_lower_def u_def)
  moreover have "puts (snd (lambda_handler (demo_platform None) (load_config [u ''DRY_RUN'' \<mapsto> u ''True''])
                fresh_world (str_event demo_body) demo_reqId))
     = [\<lparr>Bucket = u ''zoolanding-data-raw'', Key = demo_key, Body = demo_body,
          ContentType = u ''application/json''\<rparr>]"
    unfolding lambda_handler_def demo_prepare
    by (simp add: upload_and_respond_def get_s3_client_def mixed_case_config_eval fresh_world_def
          demo_platform_def table_platform_def Let_def)
  ultimately show ?thesis using mixed_case_config_eval(2) by blast
qed

text \<open>
  C8, amended: dry-run mode is on exactly when the variable is one of \<open>1\<close>, \<open>true\<close>,
  \<open>TRUE\<close>, \<open>yes\<close>, \<open>YES\<close> (off when it is unset or anything else), and when it is on no
  invocation touches the storage.
\<close>

theorem dry_run_exact_values:
  "(DRY_RUN (load_config environ) \<longleftrightarrow>
      environ (u ''DRY_RUN'') \<in> {Some (u ''1''), Some (u ''true''), Some (u ''TRUE''),
                                  Some (u ''yes''), Some (u ''YES'')}) \<and>
   (DRY_RUN (load_config environ) \<longrightarrow>
      snd (lambda_handler plat (load_config environ) w ev reqId) = w)"
proof (intro conjI impI)
  have "u ''0'' \<notin> set [u ''1'', u ''true'', u ''TRUE'', u ''yes'', u ''YES'']"
    by (simp add: u_def)
  then show "DRY_RUN (load_config environ) \<longleftrightarrow>
      environ (u ''DRY_RUN'') \<in> {Some (u ''1''), Some (u ''true''), Some (u ''TRUE''),
                                  Some (u ''yes''), Some (u ''YES'')}"
    by (cases "environ (u ''DRY_RUN'')") (auto simp: load_config_def getenv_def dry_run_of_def)
next
  assume "DRY_RUN (load_config environ)"
  then show "snd (lambda_handler plat (load_config environ) w ev reqId) = w"
    by (rule dry_run_world_unchanged)
qed

text \<open>
  A run of the amended C8: \<open>YES\<close> enables the mode and nothing is stored; \<open>Yes\<close> does not
  enable it.
\<close>

theorem dry_run_exact_values_witness:
  "DRY_RUN (load_config [u ''DRY_RUN'' \<mapsto> u ''YES'']) \<and>
   snd (lambda_handler (demo_platform None) (load_config [u ''DRY_RUN'' \<mapsto> u ''YES''])
          fresh_world (str_event demo_body) demo_reqId) = fresh_world \<and>
   \<not> DRY_RUN (load_config [u ''DRY_RUN'' \<mapsto> u ''Yes''])"
proof -
  note t = dry_run_exact_values[where environ = "[u ''DRY_RUN'' \<mapsto> u ''YES'']"
      and plat = "demo_platform None" and w = fresh_world and ev = "str_event demo_body"
      and reqId = demo_reqId]
  note t' = dry_run_exact_values[where environ = "[u ''DRY_RUN'' \<mapsto> u ''Yes'']"
      and plat = "demo_platform None" and w = fresh_world and ev = "str_event demo_body"
      and reqId = demo_reqId]
  have a: "DRY_RUN (load_config [u ''DRY_RUN'' \<mapsto> u ''YES''])"
    using t by simp
  have b: "\<not> DRY_RUN (load_config [u ''DRY_RUN'' \<mapsto> u ''Yes''])"
    using t' by (simp add: u_def)
  from a t b show ?thesis by blast
qed

subsection \<open>C9: timestamps already in milliseconds\<close>

text \<open>
  C9, as stated: a finite numeric timestamp of at least \<open>10 ^ 12\<close> is returned unchanged.
  It is not when it has a fractional part: the double 1700000000000.5 gives
  1700000000000, which is another number.
\<close>

theorem fractional_millisecond_value_changed:
  "valid_double (Fin 3400000000001 (- 1)) \<and>
   isfinite (Fin 3400000000001 (- 1)) \<and>
   float_ge_int (Fin 3400000000001 (- 1)) (10 ^ 12) \<and>
   normalize_timestamp_to_ms (PFloat (Fin 3400000000001 (- 1))) = Inr 1700000000000 \<and>
   \<not> float_eq_int (Fin 3400000000001 (- 1)) 1700000000000"
  by (simp add: valid_double_def isfinite_def float_ge_int_def float_eq_int_def
        normalize_timestamp_to_ms_def int_of_float_def)

text \<open>
  C9, amended: for an int timestamp \<open>n\<close> with \<open>10 ^ 12 \<le> n < 2 ^ 1024 - 2 ^ 970\<close> the
  normalisation returns \<open>n\<close>; for a double \<open>x \<ge> 10 ^ 12\<close> it returns the whole number \<open>t\<close>
  with \<open>t \<le> x < t + 1\<close> (\<open>x\<close> itself when \<open>x\<close> is whole), and normalising \<open>t\<close> again
  returns \<open>t\<close>.
\<close>

theorem millisecond_value_truncated_and_fixed:
  "(10 ^ 12 \<le> n \<and> n < 2 ^ 1024 - 2 ^ 970 \<longrightarrow> normalize_timestamp_to_ms (PInt n) = Inr n) \<and>
   (valid_double (Fin m e) \<and> float_ge_int (Fin m e) (10 ^ 12) \<longrightarrow>
      (\<exists>t. normalize_timestamp_to_ms (PFloat (Fin m e)) = Inr t \<and>
           float_ge_int (Fin m e) t \<and> \<not> float_ge_int (Fin m e) (t + 1) \<and>
           (\<forall>k. float_eq_int (Fin m e) k \<longrightarrow> t = k) \<and>
           normalize_timestamp_to_ms (PInt t) = Inr t))"
proof (intro conjI impI)
  assume a: "10 ^ 12 \<le> n \<and> n < 2 ^ 1024 - 2 ^ 970"
  then have "\<bar>n\<bar> < 2 ^ 1024 - 2 ^ 970" by simp
  from normalize_int_in_range[OF this] a
  show "normalize_timestamp_to_ms (PInt n) = Inr n" by simp
next
  assume a: "valid_double (Fin m e) \<and> float_ge_int (Fin m e) (10 ^ 12)"
  then have v: "valid_double (Fin m e)" and g: "float_ge_int (Fin m e) (10 ^ 12)" by blast+
  from int_of_float_ms[OF v g] obtain t where
    t: "int_of_float (Fin m e) = Inr t" "10 ^ 12 \<le> t" "t < 2 ^ 1024 - 2 ^ 970"
       "float_ge_int (Fin m e) t" "\<not> float_ge_int (Fin m e) (t + 1)"
       "\<forall>k. float_eq_int (Fin m e) k \<longrightarrow> t = k"
    by blast
  from t(2,3) have "\<bar>t\<bar> < 2 ^ 1024 - 2 ^ 970" by simp
  from normalize_int_in_range[OF this] t(2)
  have "normalize_timestamp_to_ms (PInt t) = Inr t" by simp
  moreover have "normalize_timestamp_to_ms (PFloat (Fin m e)) = Inr t"
    using normalize_float_ms[OF g] t(1) by simp
  ultimately show "\<exists>t. normalize_timestamp_to_ms (PFloat (Fin m e)) = Inr t \<and>
           float_ge_int (Fin m e) t \<and> \<not> float_ge_int (Fin m e) (t + 1) \<and>
           (\<forall>k. float_eq_int (Fin m e) k \<longrightarrow> t = k) \<and>
           normalize_timestamp_to_ms (PInt t) = Inr t"
    using t(4,5,6) by blast
qed

text \<open>
  A run of the amended C9: the timestamp of the local test harness, and 1700000000000.5.
\<close>

theorem millisecond_value_truncated_and_fixed_witness:
  "normalize_timestamp_to_ms (PInt 1756276595877) = Inr 1756276595877 \<and>
   normalize_timestamp_to_ms (PFloat (Fin 3400000000001 (- 1))) = Inr 1700000000000 \<and>
   normalize_timestamp_to_ms (PInt 1700000000000) = Inr 1700000000000"
proof -
  note th = millisecond_value_truncated_and_fixed[where n = 1756276595877 and m = 3400000000001
      and e = "- 1"]
  have n: "(10 :: int) ^ 12 \<le> 1756276595877 \<and> (1756276595877 :: int) < 2 ^ 1024 - 2 ^ 970"
    by simp
  have f: "valid_double (Fin 3400000000001 (- 1)) \<and> float_ge_int (Fin 3400000000001 (- 1)) (10 ^ 12)"
    by (simp add: valid_double_def float_ge_int_def)
  from th n have a: "normalize_timestamp_to_ms (PInt 1756276595877) = Inr 1756276595877"
    by blast
  from th f obtain t where
    t: "normalize_timestamp_to_ms (PFloat (Fin 3400000000001 (- 1))) = Inr t"
       "normalize_timestamp_to_ms (PInt t) = Inr t"
    by blast
  have "normalize_timestamp_to_ms (PFloat (Fin 3400000000001 (- 1))) = Inr 1700000000000"
    by (simp add: normalize_timestamp_to_ms_def isfinite_def float_ge_int_def int_of_float_def)
  with t have "t = 1700000000000" by simp
  with t a show ?thesis by simp
qed

subsection \<open>C10: boolean timestamps\<close>



end
